theory Spec2Isabelle
  imports Complex_Main
begin

section \<open>Floating-point values of NumPy\<close>

text \<open>
  The solver computes with IEEE doubles. The embedding computes with exact reals where
  the result is a finite number, and writes out the places where NumPy leaves the finite
  numbers instead of raising: a division by zero gives an infinity or NaN, a root or a
  fractional power of a negative number gives NaN. Rounding, overflow and underflow are
  outside the embedding.
\<close>

datatype npfloat = Fin real | PInf | NInf | NaN

definition np_divide :: "real \<Rightarrow> real \<Rightarrow> npfloat" where
  \<comment> \<open>\<open>a / b\<close> on NumPy floats: no exception, \<open>0/0\<close> is NaN, \<open>a/0\<close> is a signed infinity.\<close>
  "np_divide a b =
     (if b = 0 then (if a = 0 then NaN else if 0 < a then PInf else NInf)
      else Fin (a / b))"

definition np_sub_scalar :: "npfloat \<Rightarrow> real \<Rightarrow> npfloat" where
  \<comment> \<open>\<open>v - c\<close> for a finite constant \<open>c\<close>: infinities and NaN are kept.\<close>
  "np_sub_scalar v c = (case v of Fin a \<Rightarrow> Fin (a - c) | PInf \<Rightarrow> PInf | NInf \<Rightarrow> NInf | NaN \<Rightarrow> NaN)"

definition np_isnan :: "npfloat \<Rightarrow> bool" where
  "np_isnan v = (case v of NaN \<Rightarrow> True | _ \<Rightarrow> False)"

definition np_sqrt :: "real \<Rightarrow> npfloat" where
  \<comment> \<open>\<open>np.sqrt\<close> of a real float: NaN below zero.\<close>
  "np_sqrt a = (if a < 0 then NaN else Fin (sqrt a))"

definition np_float_power :: "real \<Rightarrow> real \<Rightarrow> npfloat" where
  \<comment> \<open>\<open>b ** p\<close> for a NumPy float \<open>b\<close> and a positive exponent \<open>p\<close> that is not an
      integer (the only exponents the source uses this way are \<open>2/3\<close> and \<open>2/5\<close>):
      NaN for a negative base, \<open>0\<close> at \<open>0\<close>.\<close>
  "np_float_power b p = (if b < 0 then NaN else Fin (b powr p))"


section \<open>functions.py: potentials and initial wave functions\<close>

subsection \<open>Thomas-Fermi profile\<close>

definition mu_1d :: "real \<Rightarrow> npfloat" where
  "mu_1d g = np_float_power ((3 * g) / (4 * sqrt 2)) (2 / 3)"

definition mu_2d :: "real \<Rightarrow> npfloat" where
  "mu_2d g = np_sqrt (g / pi)"

definition mu_3d :: "real \<Rightarrow> npfloat" where
  "mu_3d g = np_float_power ((15 * g) / (16 * sqrt 2 * pi)) (2 / 5)"

definition tf_expr :: "npfloat \<Rightarrow> real \<Rightarrow> real \<Rightarrow> npfloat" where
  \<comment> \<open>The expression \<open>mu * (1 - (r2 / (2 * mu))) / g\<close> of the three Thomas-Fermi functions,
      for \<open>g \<noteq> 0\<close>. NaN propagates; \<open>r2 / 0\<close> is infinite or NaN and \<open>0\<close> times it is NaN;
      \<open>r2 / \<plusminus>inf\<close> is \<open>0\<close>.\<close>
  "tf_expr mu r2 g =
     (case mu of
        Fin m \<Rightarrow> (if m = 0 then NaN else Fin (m * (1 - (r2 / (2 * m))) / g))
      | PInf \<Rightarrow> (if 0 < g then PInf else NInf)
      | NInf \<Rightarrow> (if 0 < g then NInf else PInf)
      | NaN \<Rightarrow> NaN)"

definition thomas_fermi_1d :: "real \<Rightarrow> real \<Rightarrow> npfloat option" where
  \<comment> \<open>\<open>None\<close> is Python's \<open>None\<close>.\<close>
  "thomas_fermi_1d x g =
     (if g \<noteq> 0 then (let mu = mu_1d g in Some (tf_expr mu (x ^ 2) g)) else None)"

definition thomas_fermi_2d :: "real \<Rightarrow> real \<Rightarrow> real \<Rightarrow> npfloat option" where
  "thomas_fermi_2d x y g =
     (if g \<noteq> 0 then (let mu = mu_2d g in Some (tf_expr mu (x ^ 2 + y ^ 2) g)) else None)"

definition thomas_fermi_2d_pos :: "real \<times> real \<Rightarrow> real \<Rightarrow> npfloat option" where
  \<comment> \<open>\<open>pos[:, :, 0]\<close> and \<open>pos[:, :, 1]\<close> at one grid point.\<close>
  "thomas_fermi_2d_pos pos g = (let x = fst pos; y = snd pos in thomas_fermi_2d x y g)"

definition thomas_fermi_3d :: "real \<Rightarrow> real \<Rightarrow> real \<Rightarrow> real \<Rightarrow> npfloat option" where
  "thomas_fermi_3d x y z g =
     (if g \<noteq> 0 then (let mu = mu_3d g in Some (tf_expr mu (x ^ 2 + y ^ 2 + z ^ 2) g))
      else None)"

subsection \<open>Harmonic trap\<close>

definition v_harmonic_1d :: "real \<Rightarrow> real" where
  "v_harmonic_1d x = 0.5 * x ^ 2"

definition v_2d :: "real \<Rightarrow> real \<Rightarrow> real \<Rightarrow> real" where
  \<comment> \<open>The parameter \<open>alpha_y\<close> is not used by the body.\<close>
  "v_2d x y alpha_y = 0.5 * (x ^ 2 + y ^ 2)"

definition v_harmonic_2d :: "real \<times> real \<Rightarrow> real \<Rightarrow> real" where
  \<comment> \<open>Calls \<open>v_2d(x, y, alpha_y=1.0)\<close>: its own \<open>alpha_y\<close> is not passed on.\<close>
  "v_harmonic_2d pos alpha_y = (let x = fst pos; y = snd pos in v_2d x y 1.0)"

definition v_harmonic_3d :: "real \<Rightarrow> real \<Rightarrow> real \<Rightarrow> real \<Rightarrow> real \<Rightarrow> real" where
  "v_harmonic_3d x y z alpha_y alpha_z = 0.5 * (x ^ 2 + (alpha_y * y) ^ 2 + (alpha_z * z) ^ 2)"

subsection \<open>Dipolar interaction kernel\<close>

text \<open>
  The three meshes have one shape, and every operation of the function is elementwise, so
  the meshes are given as the list of their grid points \<open>(kx, ky, kz)\<close>.
\<close>

definition singular_free :: "real \<Rightarrow> real" where
  \<comment> \<open>\<open>np.where(k_squared == 0.0, 1.0, k_squared)\<close> at one grid point.\<close>
  "singular_free k_squared = (if k_squared = 0.0 then 1.0 else k_squared)"

definition dipol_dipol_unmasked :: "real \<times> real \<times> real \<Rightarrow> npfloat" where
  \<comment> \<open>\<open>V_k_val\<close> at one grid point, before the NaN mask.\<close>
  "dipol_dipol_unmasked k =
     (case k of (kx, ky, kz) \<Rightarrow>
        (let k_squared = kx ^ 2 + ky ^ 2 + kz ^ 2;
             factor = 3.0 * (kz ^ 2);
             k_squared_singular_free = singular_free k_squared
         in np_sub_scalar (np_divide factor k_squared_singular_free) 1.0))"

definition nan_to_zero :: "npfloat \<Rightarrow> npfloat" where
  \<comment> \<open>\<open>V_k_val[np.isnan(V_k_val)] = 0.0\<close> at one grid point.\<close>
  "nan_to_zero v = (if np_isnan v then Fin 0.0 else v)"

definition dipol_dipol_interaction :: "(real \<times> real \<times> real) list \<Rightarrow> npfloat list" where
  "dipol_dipol_interaction k_mesh = map (\<lambda>k. nan_to_zero (dipol_dipol_unmasked k)) k_mesh"


section \<open>The formulas of the specification, over the reals\<close>

definition thomas_fermi_spec :: "real \<Rightarrow> real \<Rightarrow> real \<Rightarrow> real" where
  \<comment> \<open>\<open>\<mu> \<cdot> (1 - \<Sigma>coord\<^sup>2 / (2\<mu>)) / g\<close>, with \<open>r2\<close> the sum of the squared coordinates.\<close>
  "thomas_fermi_spec mu r2 g = mu * (1 - r2 / (2 * mu)) / g"

definition mu_spec :: "nat \<Rightarrow> real \<Rightarrow> real" where
  \<comment> \<open>The chemical potential estimate of dimension \<open>d\<close>.\<close>
  "mu_spec d g =
     (if d = 1 then ((3 * g) / (4 * sqrt 2)) powr (2 / 3)
      else if d = 2 then sqrt (g / pi)
      else ((15 * g) / (16 * sqrt 2 * pi)) powr (2 / 5))"


section \<open>Exceptions and arrays\<close>

text \<open>
  The exceptions the solver can meet. \<open>SystemExit msg code\<close> is \<open>sys.exit(code)\<close> after
  \<open>msg\<close> has been printed to the standard error stream. \<open>NonFinite\<close> is no exception of
  Python: it marks the place where a field would get infinite or NaN entries (a division of
  the field by the root of a norm that is not positive), which the finite complex numbers
  of the fields below do not represent; NumPy warns and carries on there.
\<close>

datatype exn =
    IndexError | ValueError | TypeError | ZeroDivisionError | AttributeError
  | SystemExit string int
  | NonFinite

definition exn_bind :: "exn + 'a \<Rightarrow> ('a \<Rightarrow> exn + 'b) \<Rightarrow> exn + 'b" where
  "exn_bind m f = (case m of Inl e \<Rightarrow> Inl e | Inr v \<Rightarrow> f v)"

fun sequence_exn :: "(exn + 'a) list \<Rightarrow> exn + 'a list" where
  "sequence_exn [] = Inr []"
| "sequence_exn (m # ms) =
     (case m of
        Inl e \<Rightarrow> Inl e
      | Inr v \<Rightarrow> (case sequence_exn ms of Inl e \<Rightarrow> Inl e | Inr vs \<Rightarrow> Inr (v # vs)))"

text \<open>
  A NumPy array of one, two or three axes, as nested lists in row-major order. The arrays
  of the solver are rectangular; a nested list cannot tell the shapes \<open>(0, n)\<close> apart.
\<close>

datatype 'a ndarray = A1 "'a list" | A2 "'a list list" | A3 "'a list list list"

fun ndim :: "'a ndarray \<Rightarrow> nat" where
  \<comment> \<open>The number of axes.\<close>
  "ndim (A1 a) = 1"
| "ndim (A2 a) = 2"
| "ndim (A3 a) = 3"

fun np_map :: "('a \<Rightarrow> 'b) \<Rightarrow> 'a ndarray \<Rightarrow> 'b ndarray" where
  \<comment> \<open>An elementwise function of one array, or of an array and a scalar.\<close>
  "np_map f (A1 a) = A1 (map f a)"
| "np_map f (A2 a) = A2 (map (map f) a)"
| "np_map f (A3 a) = A3 (map (map (map f)) a)"

fun np_sum :: "real ndarray \<Rightarrow> real" where
  \<comment> \<open>\<open>np.sum\<close> over all axes.\<close>
  "np_sum (A1 a) = sum_list a"
| "np_sum (A2 a) = sum_list (map sum_list a)"
| "np_sum (A3 a) = sum_list (map (\<lambda>m. sum_list (map sum_list m)) a)"

definition broadcast_axis ::
  "('a \<Rightarrow> 'b \<Rightarrow> exn + 'c) \<Rightarrow> 'a list \<Rightarrow> 'b list \<Rightarrow> exn + 'c list" where
  \<comment> \<open>NumPy's broadcasting rule on one axis: the lengths are equal, or one of them is 1
      and that entry is repeated; anything else is a ValueError.\<close>
  "broadcast_axis f a b =
     (if length a = length b then sequence_exn (map2 f a b)
      else if length a = 1 then sequence_exn (map (f (hd a)) b)
      else if length b = 1 then sequence_exn (map (\<lambda>u. f u (hd b)) a)
      else Inl ValueError)"

definition broadcast1 :: "('a \<Rightarrow> 'b \<Rightarrow> 'c) \<Rightarrow> 'a list \<Rightarrow> 'b list \<Rightarrow> exn + 'c list" where
  "broadcast1 f = broadcast_axis (\<lambda>u v. Inr (f u v))"

definition broadcast2 ::
  "('a \<Rightarrow> 'b \<Rightarrow> 'c) \<Rightarrow> 'a list list \<Rightarrow> 'b list list \<Rightarrow> exn + 'c list list" where
  "broadcast2 f = broadcast_axis (broadcast1 f)"

definition broadcast3 ::
  "('a \<Rightarrow> 'b \<Rightarrow> 'c) \<Rightarrow> 'a list list list \<Rightarrow> 'b list list list \<Rightarrow> exn + 'c list list list" where
  "broadcast3 f = broadcast_axis (broadcast2 f)"

fun np_binop :: "('a \<Rightarrow> 'b \<Rightarrow> 'c) \<Rightarrow> 'a ndarray \<Rightarrow> 'b ndarray \<Rightarrow> exn + 'c ndarray" where
  \<comment> \<open>An elementwise operation of two arrays: the array of fewer axes gets leading axes of
      length 1, then every axis is broadcast.\<close>
  "np_binop f (A1 a) (A1 b) = map_sum id A1 (broadcast1 f a b)"
| "np_binop f (A1 a) (A2 b) = map_sum id A2 (broadcast2 f [a] b)"
| "np_binop f (A2 a) (A1 b) = map_sum id A2 (broadcast2 f a [b])"
| "np_binop f (A2 a) (A2 b) = map_sum id A2 (broadcast2 f a b)"
| "np_binop f (A1 a) (A3 b) = map_sum id A3 (broadcast3 f [[a]] b)"
| "np_binop f (A3 a) (A1 b) = map_sum id A3 (broadcast3 f a [[b]])"
| "np_binop f (A2 a) (A3 b) = map_sum id A3 (broadcast3 f [a] b)"
| "np_binop f (A3 a) (A2 b) = map_sum id A3 (broadcast3 f a [b])"
| "np_binop f (A3 a) (A3 b) = map_sum id A3 (broadcast3 f a b)"

definition slice :: "nat \<Rightarrow> nat \<Rightarrow> 'a list \<Rightarrow> 'a list" where
  \<comment> \<open>\<open>a[lo:hi]\<close> for \<open>0 \<le> lo \<le> hi\<close>: bounds past the end are clipped, never an error.\<close>
  "slice lo hi a = take (hi - lo) (drop lo a)"

fun index2 :: "nat \<Rightarrow> nat \<Rightarrow> nat \<Rightarrow> nat \<Rightarrow> 'a ndarray \<Rightarrow> exn + 'a ndarray" where
  \<comment> \<open>\<open>a[lo0:hi0, lo1:hi1]\<close>: two slices need an array of two axes at least
      (\<^verbatim>\<open>IndexError: too many indices for array\<close> otherwise).\<close>
  "index2 lo0 hi0 lo1 hi1 (A1 a) = Inl IndexError"
| "index2 lo0 hi0 lo1 hi1 (A2 a) = Inr (A2 (map (slice lo1 hi1) (slice lo0 hi0 a)))"
| "index2 lo0 hi0 lo1 hi1 (A3 a) = Inr (A3 (map (slice lo1 hi1) (slice lo0 hi0 a)))"

subsection \<open>linspace, fftfreq, meshes\<close>

definition linspace_samples :: "real \<Rightarrow> real \<Rightarrow> nat \<Rightarrow> real list" where
  \<comment> \<open>The samples of \<open>np.linspace(start, stop, n)\<close> with the default \<open>endpoint=True\<close>:
      the step is \<open>(stop - start) / (n - 1)\<close> and the last sample is set to \<open>stop\<close>; one
      sample is \<open>start\<close>.\<close>
  "linspace_samples start stop n =
     (if n \<le> 1 then replicate n start
      else (let step = (stop - start) / real (n - 1)
            in map (\<lambda>i. real i * step + start) [0..<n - 1] @ [stop]))"

definition linspace :: "real \<Rightarrow> real \<Rightarrow> int \<Rightarrow> exn + real list" where
  \<comment> \<open>A negative number of samples is a ValueError.\<close>
  "linspace start stop num =
     (if num < 0 then Inl ValueError else Inr (linspace_samples start stop (nat num)))"

definition py_truediv :: "real \<Rightarrow> real \<Rightarrow> exn + real" where
  \<comment> \<open>\<open>a / b\<close> on Python floats and ints.\<close>
  "py_truediv a b = (if b = 0 then Inl ZeroDivisionError else Inr (a / b))"

definition fftfreq_integers :: "int \<Rightarrow> int list" where
  \<comment> \<open>The integers \<open>0, \<dots>, (n-1)//2\<close>, then \<open>-(n//2), \<dots>, -1\<close>.\<close>
  "fftfreq_integers n = (let N = (n - 1) div 2 + 1 in [0..N - 1] @ [- (n div 2)..- 1])"

definition fftfreq :: "int \<Rightarrow> real \<Rightarrow> exn + real list" where
  \<comment> \<open>\<open>np.fft.fftfreq(n, d)\<close>: \<open>val = 1.0 / (n * d)\<close>, then the integers above times
      \<open>val\<close>.\<close>
  "fftfreq n d =
     exn_bind (py_truediv 1.0 (real_of_int n * d)) (\<lambda>val.
       if n < 0 then Inl ValueError
       else Inr (map (\<lambda>i. real_of_int i * val) (fftfreq_integers n)))"

definition get_meshgrid ::
  "real list \<Rightarrow> real list \<Rightarrow> real ndarray \<times> real ndarray \<times> real ndarray" where
  \<comment> \<open>\<open>np.meshgrid(x, y)\<close> with the default \<open>indexing='xy'\<close>: the first index runs over
      \<open>y\<close>, the second over \<open>x\<close>; \<open>pos[i, j] = [x[j], y[i]]\<close>.\<close>
  "get_meshgrid x y =
     (let x_mesh = map (\<lambda>yi. x) y;
          y_mesh = map (\<lambda>yi. map (\<lambda>xj. yi) x) y;
          pos = map (\<lambda>yi. map (\<lambda>xj. [xj, yi]) x) y
      in (A2 x_mesh, A2 y_mesh, A3 pos))"

definition mgrid_axis :: "real \<Rightarrow> real \<Rightarrow> int \<Rightarrow> real list" where
  \<comment> \<open>One axis \<open>start:stop:complex(0, num)\<close> of \<open>np.mgrid\<close>: \<open>num\<close> samples
      \<open>i * step + start\<close> with \<open>step = (stop - start) / (num - 1)\<close>, and \<open>step = 1\<close>
      for one sample.\<close>
  "mgrid_axis start stop num =
     (let step = (if num \<noteq> 1 then (stop - start) / real_of_int (num - 1) else 1)
      in map (\<lambda>i. real i * step + start) [0..<nat num])"

definition mgrid3 ::
  "real list \<Rightarrow> real list \<Rightarrow> real list \<Rightarrow> real ndarray \<times> real ndarray \<times> real ndarray" where
  \<comment> \<open>The three meshes of \<open>np.mgrid\<close> from the axes' samples: index \<open>[i, j, k]\<close> holds
      \<open>gx[i]\<close>, \<open>gy[j]\<close>, \<open>gz[k]\<close>.\<close>
  "mgrid3 gx gy gz =
     (A3 (map (\<lambda>a. map (\<lambda>b. map (\<lambda>c. a) gz) gy) gx),
      A3 (map (\<lambda>a. map (\<lambda>b. map (\<lambda>c. b) gz) gy) gx),
      A3 (map (\<lambda>a. map (\<lambda>b. map (\<lambda>c. c) gz) gy) gx))"

subsection \<open>The discrete Fourier transform\<close>

definition dft :: "real \<Rightarrow> complex list \<Rightarrow> complex list" where
  \<comment> \<open>\<open>A[k] = \<Sum>\<^sub>m a[m] exp(dir 2\<pi>i m k / n)\<close>: \<open>dir = -1\<close> forwards, \<open>+1\<close> backwards.\<close>
  "dft dir a =
     (let n = length a
      in map (\<lambda>k. sum_list (map (\<lambda>m. a ! m *
                exp (complex_of_real (dir * 2 * pi * real m * real k / real n) * \<i>)) [0..<n]))
           [0..<n])"

definition fft :: "complex list \<Rightarrow> complex list" where
  "fft a = dft (- 1) a"

definition ifft :: "complex list \<Rightarrow> complex list" where
  "ifft a = map (\<lambda>c. c / complex_of_real (real (length a))) (dft 1 a)"

definition along_axis0 :: "('a list \<Rightarrow> 'a list) \<Rightarrow> 'a list list \<Rightarrow> 'a list list" where
  \<comment> \<open>Applies a transform of one axis to every column of a rectangular array.\<close>
  "along_axis0 f a = transpose (map f (transpose a))"

definition transform_all_axes :: "(complex list \<Rightarrow> complex list) \<Rightarrow> complex ndarray \<Rightarrow> complex ndarray" where
  \<comment> \<open>The one-axis transform along the last axis, then the one before, up to the first.\<close>
  "transform_all_axes f a =
     (case a of
        A1 u \<Rightarrow> A1 (f u)
      | A2 u \<Rightarrow> A2 (along_axis0 f (map f u))
      | A3 u \<Rightarrow>
          A3 (transpose (map (along_axis0 f)
                (transpose (map (\<lambda>m. along_axis0 f (map f m)) u)))))"

fun has_empty_axis :: "'a ndarray \<Rightarrow> bool" where
  "has_empty_axis (A1 a) = (a = [])"
| "has_empty_axis (A2 a) = (a = [] \<or> list_ex (\<lambda>r. r = []) a)"
| "has_empty_axis (A3 a) = (a = [] \<or> list_ex (\<lambda>m. m = [] \<or> list_ex (\<lambda>r. r = []) m) a)"

definition fftn :: "complex ndarray \<Rightarrow> exn + complex ndarray" where
  \<comment> \<open>\<open>np.fft.fftn\<close> over all axes; an axis without data points is a ValueError.\<close>
  "fftn a = (if has_empty_axis a then Inl ValueError else Inr (transform_all_axes fft a))"

definition ifftn :: "complex ndarray \<Rightarrow> exn + complex ndarray" where
  "ifftn a = (if has_empty_axis a then Inl ValueError else Inr (transform_all_axes ifft a))"

section \<open>Schroedinger.py: the split-operator solver\<close>

subsection \<open>The object\<close>

text \<open>
  The attributes of a \<open>Schroedinger\<close> object, \<open>self.x\<close> as \<open>self_x\<close>. An attribute that
  exists only in some dimensions is an option: \<open>None\<close> is an attribute that was never set,
  and reading it is an AttributeError. \<open>psi_sol_val\<close> can be set to Python's \<open>None\<close>
  (\<open>Some None\<close>), which is what the Thomas-Fermi functions return at \<open>g = 0\<close>. The
  callables \<open>self.psi\<close>, \<open>self.V\<close> and \<open>self.psi_sol\<close> are read by the constructor only
  and are not kept. \<open>k_squared\<close> is built from the one-axis arrays \<open>kx\<close>, \<open>ky\<close>, \<open>kz\<close>
  alone and has one axis.
\<close>

record schroedinger =
  self_resolution :: int
  self_timesteps :: int
  self_L :: real
  self_dt :: real
  self_g :: real
  self_imag_time :: bool
  self_dim :: int
  self_mu_sol :: npfloat
  self_mu :: npfloat
  self_E :: npfloat
  self_x :: "real list"
  self_dx :: real
  self_dkx :: real
  self_kx :: "real list"
  self_k_squared :: "real list"
  self_U :: complex
  self_y :: "real list option"
  self_dy :: "real option"
  self_dky :: "real option"
  self_ky :: "real list option"
  self_z :: "real list option"
  self_dz :: "real option"
  self_dkz :: "real option"
  self_kz :: "real list option"
  self_x_mesh :: "real ndarray option"
  self_y_mesh :: "real ndarray option"
  self_z_mesh :: "real ndarray option"
  self_pos :: "real ndarray option"
  self_psi_val :: "complex ndarray option"
  self_V_val :: "real ndarray option"
  self_psi_sol_val :: "npfloat ndarray option option"
  self_H_kin :: "complex ndarray option"
  self_t :: real
  self_alpha_psi :: real
  self_alpha_V :: real

text \<open>
  The arguments of the constructor. A callable gets the list of its positional arguments
  (\<open>[x]\<close> in one dimension, \<open>[pos]\<close> in two, \<open>[x_mesh, y_mesh, z_mesh]\<close> in three) and may
  raise; \<open>psi_sol\<close> gets the keyword \<open>g\<close> as well.
\<close>

record init_args =
  arg_resolution :: int
  arg_timesteps :: int
  arg_L :: real
  arg_dt :: real
  arg_g :: real
  arg_imag_time :: bool
  arg_s :: real
  arg_E :: real
  arg_dim :: int
  arg_psi_0 :: "real ndarray list \<Rightarrow> exn + complex ndarray"
  arg_V :: "real ndarray list \<Rightarrow> exn + real ndarray"
  arg_psi_sol :: "real ndarray list \<Rightarrow> real \<Rightarrow> exn + npfloat ndarray option"
  arg_mu_sol :: "real \<Rightarrow> exn + npfloat"
  arg_alpha_psi :: real
  arg_alpha_V :: real

definition attr :: "'a option \<Rightarrow> exn + 'a" where
  \<comment> \<open>Reading an attribute.\<close>
  "attr a = (case a of None \<Rightarrow> Inl AttributeError | Some v \<Rightarrow> Inr v)"

definition first_item :: "'a list \<Rightarrow> exn + 'a" where
  \<comment> \<open>\<open>a[0]\<close>\<close>
  "first_item a = (case a of [] \<Rightarrow> Inl IndexError | v # _ \<Rightarrow> Inr v)"

definition last_item :: "'a list \<Rightarrow> exn + 'a" where
  \<comment> \<open>\<open>a[-1]\<close>\<close>
  "last_item a = (if a = [] then Inl IndexError else Inr (last a))"

subsection \<open>The constructor\<close>

definition exit_message :: string where
  "exit_message = ''Spatial dimension over 3. This is not implemented.''"

definition axis_kx :: "int \<Rightarrow> real \<Rightarrow> exn + real list" where
  \<comment> \<open>\<open>np.fft.fftfreq(resolution, d=1.0 / (dk * resolution))\<close>\<close>
  "axis_kx resolution dk =
     exn_bind (py_truediv 1.0 (dk * real_of_int resolution)) (\<lambda>d. fftfreq resolution d)"

definition init_fields :: "init_args \<Rightarrow> schroedinger \<Rightarrow> exn + schroedinger" where
  \<comment> \<open>The branches \<open>dim == 1\<close>, \<open>dim == 2\<close>, \<open>dim == 3\<close> of the constructor; no
      branch is taken below \<open>1\<close>.\<close>
  "init_fields a s =
     (let H_kin = A1 (map (\<lambda>k2. exp (self_U s * complex_of_real (0.5 * k2)
                                        * complex_of_real (self_dt s))) (self_k_squared s))
      in
      if arg_dim a = 1 then
        exn_bind (arg_psi_0 a [A1 (self_x s)]) (\<lambda>psi_val.
        exn_bind (arg_V a [A1 (self_x s)]) (\<lambda>V_val.
        exn_bind (arg_psi_sol a [A1 (self_x s)] (self_g s)) (\<lambda>psi_sol_val.
          Inr (s\<lparr>self_psi_val := Some psi_val, self_V_val := Some V_val,
                 self_psi_sol_val := Some psi_sol_val, self_H_kin := Some H_kin\<rparr>))))
      else if arg_dim a = 2 then
        exn_bind (attr (self_y s)) (\<lambda>y.
          (case get_meshgrid (self_x s) y of (x_mesh, y_mesh, pos) \<Rightarrow>
            exn_bind (arg_psi_0 a [pos]) (\<lambda>psi_val.
            exn_bind (arg_V a [pos]) (\<lambda>V_val.
            exn_bind (arg_psi_sol a [pos] (self_g s)) (\<lambda>psi_sol_val.
              Inr (s\<lparr>self_x_mesh := Some x_mesh, self_y_mesh := Some y_mesh,
                     self_pos := Some pos,
                     self_psi_val := Some psi_val, self_V_val := Some V_val,
                     self_psi_sol_val := Some psi_sol_val, self_H_kin := Some H_kin\<rparr>))))))
      else if arg_dim a = 3 then
        exn_bind (first_item (self_x s)) (\<lambda>x0.
        exn_bind (last_item (self_x s)) (\<lambda>x1.
        exn_bind (attr (self_y s)) (\<lambda>y.
        exn_bind (first_item y) (\<lambda>y0.
        exn_bind (last_item y) (\<lambda>y1.
        exn_bind (attr (self_z s)) (\<lambda>z.
        exn_bind (first_item z) (\<lambda>z0.
        exn_bind (last_item z) (\<lambda>z1.
          (case mgrid3 (mgrid_axis x0 x1 (self_resolution s))
                       (mgrid_axis y0 y1 (self_resolution s))
                       (mgrid_axis z0 z1 (self_resolution s)) of
             (x_mesh, y_mesh, z_mesh) \<Rightarrow>
               exn_bind (arg_psi_0 a [x_mesh, y_mesh, z_mesh]) (\<lambda>psi_val.
               exn_bind (arg_V a [x_mesh, y_mesh, z_mesh]) (\<lambda>V_val.
                 Inr (s\<lparr>self_x_mesh := Some x_mesh, self_y_mesh := Some y_mesh,
                        self_z_mesh := Some z_mesh,
                        self_psi_val := Some psi_val, self_V_val := Some V_val,
                        self_H_kin := Some H_kin\<rparr>))))))))))))
      else Inr s)"

definition init_axes :: "init_args \<Rightarrow> exn + schroedinger" where
  \<comment> \<open>The constructor up to the test \<open>dim > 3\<close>: the scalars, the axes and
      \<open>k_squared\<close>.\<close>
  "init_axes a =
     (let resolution = arg_resolution a; L = arg_L a; dim = arg_dim a in
      exn_bind (arg_mu_sol a (arg_g a)) (\<lambda>mu_sol.
      exn_bind (linspace (- L) L resolution) (\<lambda>x.
      exn_bind (py_truediv (2.0 * L) (real_of_int resolution)) (\<lambda>dx.
      exn_bind (py_truediv pi L) (\<lambda>dkx.
      exn_bind (axis_kx resolution dkx) (\<lambda>kx.
        (let s0 = \<lparr> self_resolution = resolution, self_timesteps = arg_timesteps a,
                    self_L = L, self_dt = arg_dt a, self_g = arg_g a,
                    self_imag_time = arg_imag_time a, self_dim = dim,
                    self_mu_sol = mu_sol, self_mu = Fin (arg_s a), self_E = Fin (arg_E a),
                    self_x = x, self_dx = dx, self_dkx = dkx, self_kx = kx,
                    self_k_squared = map (\<lambda>k. k ^ 2) kx,
                    self_U = (if arg_imag_time a then - 1 else - \<i>),
                    self_y = None, self_dy = None, self_dky = None, self_ky = None,
                    self_z = None, self_dz = None, self_dkz = None, self_kz = None,
                    self_x_mesh = None, self_y_mesh = None, self_z_mesh = None,
                    self_pos = None, self_psi_val = None, self_V_val = None,
                    self_psi_sol_val = None, self_H_kin = None,
                    self_t = 0.0, self_alpha_psi = arg_alpha_psi a,
                    self_alpha_V = arg_alpha_V a \<rparr>
         in
         exn_bind
           (if dim \<ge> 2 then
              exn_bind (linspace (- L) L resolution) (\<lambda>y.
              exn_bind (py_truediv (2.0 * L) (real_of_int resolution)) (\<lambda>dy.
              exn_bind (py_truediv pi L) (\<lambda>dky.
              exn_bind (axis_kx resolution dky) (\<lambda>ky.
                Inr (s0\<lparr>self_y := Some y, self_dy := Some dy, self_dky := Some dky,
                        self_ky := Some ky,
                        self_k_squared := map2 (+) (self_k_squared s0)
                                            (map (\<lambda>k. k ^ 2) ky)\<rparr>)))))
            else Inr s0) (\<lambda>s1.
           if dim \<ge> 3 then
              exn_bind (linspace (- L) L resolution) (\<lambda>z.
              exn_bind (py_truediv (2.0 * L) (real_of_int resolution)) (\<lambda>dz.
              exn_bind (py_truediv pi L) (\<lambda>dkz.
              exn_bind (axis_kx resolution dkz) (\<lambda>kz.
                Inr (s1\<lparr>self_z := Some z, self_dz := Some dz, self_dkz := Some dkz,
                        self_kz := Some kz,
                        self_k_squared := map2 (+) (self_k_squared s1)
                                            (map (\<lambda>k. k ^ 2) kz)\<rparr>)))))
            else Inr s1))))))))"

definition init :: "init_args \<Rightarrow> exn + schroedinger" where
  \<comment> \<open>\<open>Schroedinger.__init__\<close>, in the order of its statements. An exception leaves no
      object. The attributes set after the fields (\<open>t\<close>, \<open>alpha_psi\<close>, \<open>alpha_V\<close>)
      depend on nothing before them and are set with the scalars.\<close>
  "init a =
     exn_bind (init_axes a) (\<lambda>s.
       if arg_dim a > 3 then Inl (SystemExit exit_message 1)
       else init_fields a s)"

subsection \<open>get\_norm and time\_step\<close>

definition get_norm :: "schroedinger \<Rightarrow> real \<Rightarrow> exn + real" where
  \<comment> \<open>\<open>np.abs(psi_val) ** p\<close> is \<open>cmod z powr p\<close> for the exponents \<open>p > 0\<close> that the
      solver passes (\<open>2.0\<close> and \<open>4.0\<close>).\<close>
  "get_norm s p =
     (if self_dim s = 1 then
        exn_bind (attr (self_psi_val s)) (\<lambda>psi_val.
          Inr (np_sum (np_map (\<lambda>c. cmod c powr p) psi_val) * self_dx s))
      else if self_dim s = 2 then
        exn_bind (attr (self_psi_val s)) (\<lambda>psi_val.
        exn_bind (attr (self_dy s)) (\<lambda>dy.
          Inr (np_sum (np_map (\<lambda>c. cmod c powr p) psi_val) * self_dx s * dy)))
      else if self_dim s = 3 then
        exn_bind (attr (self_psi_val s)) (\<lambda>psi_val.
        exn_bind (attr (self_dy s)) (\<lambda>dy.
        exn_bind (attr (self_dz s)) (\<lambda>dz.
          Inr (np_sum (np_map (\<lambda>c. cmod c powr p) psi_val) * self_dx s * dy * dz))))
      else Inl (SystemExit exit_message 1))"

text \<open>
  \<open>time_step\<close> changes the object in place, statement by statement. A stage returns the
  changed object, or the exception together with the object as it was left.
\<close>

type_synonym stage = "schroedinger \<Rightarrow> exn \<times> schroedinger + schroedinger"

definition stage_bind :: "exn \<times> schroedinger + schroedinger \<Rightarrow> stage \<Rightarrow> exn \<times> schroedinger + schroedinger" where
  "stage_bind m f = (case m of Inl e \<Rightarrow> Inl e | Inr s \<Rightarrow> f s)"

definition raised_in :: "schroedinger \<Rightarrow> exn + 'a \<Rightarrow> ('a \<Rightarrow> exn \<times> schroedinger + schroedinger)
    \<Rightarrow> exn \<times> schroedinger + schroedinger" where
  \<comment> \<open>Evaluates an expression in the object \<open>s\<close>: an exception leaves \<open>s\<close> behind.\<close>
  "raised_in s m f = (case m of Inl e \<Rightarrow> Inl (e, s) | Inr v \<Rightarrow> f v)"

definition H_pot :: "schroedinger \<Rightarrow> exn + complex ndarray" where
  \<comment> \<open>\<open>np.exp(self.U * (self.V_val + self.g * np.abs(self.psi_val) ** 2.0) * (0.5 * self.dt))\<close>\<close>
  "H_pot s =
     exn_bind (attr (self_V_val s)) (\<lambda>V_val.
     exn_bind (attr (self_psi_val s)) (\<lambda>psi_val.
     exn_bind (np_binop (+) V_val (np_map (\<lambda>c. self_g s * (cmod c) ^ 2) psi_val)) (\<lambda>w.
       Inr (np_map (\<lambda>r. exp (self_U s * complex_of_real r
                              * complex_of_real (0.5 * self_dt s))) w))))"

definition potential_half_step :: stage where
  \<comment> \<open>\<open>H_pot = \<dots>; self.psi_val = H_pot * self.psi_val\<close>\<close>
  "potential_half_step s =
     raised_in s (H_pot s) (\<lambda>H.
     raised_in s (attr (self_psi_val s)) (\<lambda>psi_val.
     raised_in s (np_binop (*) H psi_val) (\<lambda>psi_new.
       Inr (s\<lparr>self_psi_val := Some psi_new\<rparr>))))"

definition probe :: stage where
  \<comment> \<open>\<open>a = np.abs(self.psi_val[29:35, 29:34]) ** 2.0\<close>; the value \<open>a\<close> is not used.\<close>
  "probe s =
     raised_in s (attr (self_psi_val s)) (\<lambda>psi_val.
     raised_in s (index2 29 35 29 34 psi_val) (\<lambda>w.
       (let a = np_map (\<lambda>c. (cmod c) ^ 2) w in Inr s)))"

definition to_momentum_space :: stage where
  \<comment> \<open>\<open>self.psi_val = np.fft.fftn(self.psi_val)\<close>\<close>
  "to_momentum_space s =
     raised_in s (attr (self_psi_val s)) (\<lambda>psi_val.
     raised_in s (fftn psi_val) (\<lambda>psi_new.
       Inr (s\<lparr>self_psi_val := Some psi_new\<rparr>)))"

definition kinetic_step :: stage where
  \<comment> \<open>\<open>self.psi_val = self.H_kin * self.psi_val\<close>\<close>
  "kinetic_step s =
     raised_in s (attr (self_H_kin s)) (\<lambda>H_kin.
     raised_in s (attr (self_psi_val s)) (\<lambda>psi_val.
     raised_in s (np_binop (*) H_kin psi_val) (\<lambda>psi_new.
       Inr (s\<lparr>self_psi_val := Some psi_new\<rparr>))))"

definition to_position_space :: stage where
  \<comment> \<open>\<open>self.psi_val = np.fft.ifftn(self.psi_val)\<close>\<close>
  "to_position_space s =
     raised_in s (attr (self_psi_val s)) (\<lambda>psi_val.
     raised_in s (ifftn psi_val) (\<lambda>psi_new.
       Inr (s\<lparr>self_psi_val := Some psi_new\<rparr>)))"

definition advance_time :: stage where
  \<comment> \<open>\<open>self.t += self.dt\<close>\<close>
  "advance_time s = Inr (s\<lparr>self_t := self_t s + self_dt s\<rparr>)"

definition evolve :: stage where
  \<comment> \<open>The statements of \<open>time_step\<close> up to \<open>self.t += self.dt\<close>.\<close>
  "evolve s =
     stage_bind (potential_half_step s) (\<lambda>s.
     stage_bind (probe s) (\<lambda>s.
     stage_bind (to_momentum_space s) (\<lambda>s.
     stage_bind (kinetic_step s) (\<lambda>s.
     stage_bind (to_position_space s) (\<lambda>s.
     stage_bind (probe s) (\<lambda>s.
     stage_bind (potential_half_step s) (\<lambda>s.
       advance_time s)))))))"

definition renormalize :: stage where
  \<comment> \<open>The rest of \<open>time_step\<close>: the rescale by the root of the \<open>p = 2\<close> norm, then \<open>mu\<close>
      and \<open>E\<close>. A norm that is not positive leaves the finite numbers. The two \<open>print\<close>
      calls are not modelled.\<close>
  "renormalize s =
     raised_in s (get_norm s 2.0) (\<lambda>psi_norm_after_evolution.
     raised_in s (attr (self_psi_val s)) (\<lambda>psi_val.
       if psi_norm_after_evolution \<le> 0 then Inl (NonFinite, s)
       else
         (let s1 = s\<lparr>self_psi_val := Some (np_map
                      (\<lambda>c. c / complex_of_real (sqrt psi_norm_after_evolution)) psi_val)\<rparr>
          in
          raised_in s1 (get_norm s1 4.0) (\<lambda>psi_quadratic_integral.
            (let mu = np_divide (- ln psi_norm_after_evolution) (2.0 * self_dt s1);
                 s2 = s1\<lparr>self_mu := mu\<rparr>
             in Inr (s2\<lparr>self_E := np_sub_scalar (self_mu s2)
                                    (0.5 * self_g s2 * psi_quadratic_integral)\<rparr>))))))"

definition time_step :: stage where
  "time_step s = stage_bind (evolve s) renormalize"

subsection \<open>Initializers on arrays\<close>

definition on_axis :: "(real \<Rightarrow> 'a) \<Rightarrow> real ndarray list \<Rightarrow> exn + 'a ndarray" where
  \<comment> \<open>A one-dimensional initializer \<open>f(x)\<close> of elementwise operations, called with the
      axis \<open>x\<close>.\<close>
  "on_axis f args = (case args of [a] \<Rightarrow> Inr (np_map f a) | _ \<Rightarrow> Inl TypeError)"

definition on_pos :: "(real \<times> real \<Rightarrow> 'a) \<Rightarrow> real ndarray list \<Rightarrow> exn + 'a ndarray" where
  \<comment> \<open>A two-dimensional initializer \<open>f(pos)\<close> that reads \<open>pos[:, :, 0]\<close> and
      \<open>pos[:, :, 1]\<close>.\<close>
  "on_pos f args =
     (case args of
        [A3 pos] \<Rightarrow>
          exn_bind (sequence_exn (map (\<lambda>row. sequence_exn (map (\<lambda>p.
              (case p of u # v # _ \<Rightarrow> Inr (f (u, v)) | _ \<Rightarrow> Inl IndexError)) row)) pos))
            (\<lambda>w. Inr (A2 w))
      | [_] \<Rightarrow> Inl IndexError
      | _ \<Rightarrow> Inl TypeError)"

subsection \<open>The first half step on a field of one axis\<close>

definition half_step_1d :: "schroedinger \<Rightarrow> real list \<Rightarrow> complex list \<Rightarrow> complex list" where
  \<comment> \<open>\<open>H_pot * psi_val\<close> for a potential \<open>vs\<close> and a field \<open>ps\<close> of one axis and one
      length.\<close>
  "half_step_1d s vs ps =
     map2 (\<lambda>h p. h * p)
       (map (\<lambda>r. exp (self_U s * complex_of_real r * complex_of_real (0.5 * self_dt s)))
          (map2 (+) vs (map (\<lambda>c. self_g s * (cmod c) ^ 2) ps))) ps"

subsection \<open>Outcomes\<close>

definition returns :: "exn + 'a \<Rightarrow> bool" where
  \<comment> \<open>The call returns a value.\<close>
  "returns m = (case m of Inl e \<Rightarrow> False | Inr v \<Rightarrow> True)"

definition exits :: "exn + 'a \<Rightarrow> bool" where
  \<comment> \<open>The call ends in \<open>sys.exit\<close>.\<close>
  "exits m = (case m of Inl (SystemExit msg code) \<Rightarrow> True | _ \<Rightarrow> False)"

definition axes_of_dim :: "int \<Rightarrow> nat" where
  \<comment> \<open>The number of axes the constructor sets up: the tests \<open>dim >= 2\<close> and \<open>dim >= 3\<close>.\<close>
  "axes_of_dim d = (if d \<ge> 3 then 3 else if d \<ge> 2 then 2 else 1)"

subsection \<open>The object over its life\<close>

text \<open>
  An object is made by the constructor and changed by calls of \<open>time_step\<close> only, whether
  a call returns or raises.
\<close>

inductive reachable :: "init_args \<Rightarrow> schroedinger \<Rightarrow> bool" for a :: init_args where
  constructed: "init a = Inr s \<Longrightarrow> reachable a s"
| stepped: "reachable a s \<Longrightarrow> time_step s = Inr s' \<Longrightarrow> reachable a s'"
| raised: "reachable a s \<Longrightarrow> time_step s = Inl (e, s') \<Longrightarrow> reachable a s'"

section \<open>The time step of the specification\<close>

text \<open>
  The sequence of the specification: the half step in position space, the Fourier
  transform, the kinetic step, the inverse transform, the second half step with
  \<open>H_pot\<close> recomputed, the advance of \<open>t\<close>, then the rescale. It has no other statement.
\<close>

definition time_step_spec :: stage where
  "time_step_spec s =
     stage_bind (potential_half_step s) (\<lambda>s.
     stage_bind (to_momentum_space s) (\<lambda>s.
     stage_bind (kinetic_step s) (\<lambda>s.
     stage_bind (to_position_space s) (\<lambda>s.
     stage_bind (potential_half_step s) (\<lambda>s.
     stage_bind (advance_time s) renormalize)))))"

definition field_has_two_axes :: "schroedinger \<Rightarrow> bool" where
  \<comment> \<open>The field \<open>psi_val\<close> is set and has two axes at least.\<close>
  "field_has_two_axes s = (case self_psi_val s of None \<Rightarrow> False | Some psi \<Rightarrow> 2 \<le> ndim psi)"

section \<open>Properties of functions.py\<close>

lemma k_squared_zero_iff:
  "(kx::real) ^ 2 + ky ^ 2 + kz ^ 2 = 0 \<longleftrightarrow> kx = 0 \<and> ky = 0 \<and> kz = 0"
  by (simp add: sum_power2_eq_zero_iff add_nonneg_eq_0_iff)

lemma singular_free_nonzero: "singular_free k \<noteq> 0"
  by (simp add: singular_free_def)

lemma dipol_dipol_unmasked_value:
  "dipol_dipol_unmasked (kx, ky, kz) =
     (if kx = 0 \<and> ky = 0 \<and> kz = 0 then Fin (- 1)
      else Fin (3 * kz ^ 2 / (kx ^ 2 + ky ^ 2 + kz ^ 2) - 1))"
  using k_squared_zero_iff [of kx ky kz]
  by (auto simp add: dipol_dipol_unmasked_def singular_free_def np_divide_def
      np_sub_scalar_def Let_def)

lemma dipol_dipol_unmasked_not_nan: "\<not> np_isnan (dipol_dipol_unmasked k)"
  by (cases k) (simp add: dipol_dipol_unmasked_value np_isnan_def)

text \<open>
  C1, as the code has it. At the zero wavevector the divisor \<open>k\<^sup>2\<close> is replaced by \<open>1\<close>
  before the division, so the ratio \<open>3 kz\<^sup>2 / k\<^sup>2\<close> is \<open>0 / 1 = 0\<close> and the kernel is
  \<open>0 - 1 = -1\<close> there; at every other wavevector the kernel is \<open>3 kz\<^sup>2 / k\<^sup>2 - 1\<close>.
  The divisor is never \<open>0\<close>, no grid point is NaN before the mask, and the mask changes
  nothing.
\<close>

theorem dipol_dipol_interaction_value:
  "dipol_dipol_interaction k_mesh =
     map (\<lambda>(kx, ky, kz).
            if kx = 0 \<and> ky = 0 \<and> kz = 0 then Fin (- 1)
            else Fin (3 * kz ^ 2 / (kx ^ 2 + ky ^ 2 + kz ^ 2) - 1)) k_mesh
   \<and> dipol_dipol_interaction k_mesh = map dipol_dipol_unmasked k_mesh
   \<and> singular_free (kx ^ 2 + ky ^ 2 + kz ^ 2) \<noteq> 0"
  by (auto simp add: dipol_dipol_interaction_def dipol_dipol_unmasked_value
      dipol_dipol_unmasked_not_nan nan_to_zero_def singular_free_nonzero)

theorem dipol_dipol_interaction_value_witness:
  "dipol_dipol_interaction [(0, 0, 0), (0, 0, 2), (1, 0, 0), (1, 1, 1)]
     = [Fin (- 1), Fin 2, Fin (- 1), Fin 0]"
  using dipol_dipol_interaction_value [of "[(0, 0, 0), (0, 0, 2), (1, 0, 0), (1, 1, 1)]" 0 0 0]
  by simp

text \<open>
  C1, as the specification states it, fails: the kernel at the zero wavevector is not \<open>0\<close>.
\<close>

theorem dipol_dipol_interaction_zero_counterexample:
  "dipol_dipol_interaction [(0, 0, 0)] \<noteq> [Fin 0]"
  by (simp add: dipol_dipol_interaction_def dipol_dipol_unmasked_def singular_free_def
      np_divide_def np_sub_scalar_def nan_to_zero_def np_isnan_def)

lemma mu_1d_positive: "0 < g \<Longrightarrow> mu_1d g = Fin (mu_spec 1 g)"
proof -
  assume "0 < g"
  then have "0 < (3 * g) / (4 * sqrt 2)" by simp
  then show ?thesis by (simp add: mu_1d_def np_float_power_def mu_spec_def)
qed

lemma mu_2d_positive: "0 < g \<Longrightarrow> mu_2d g = Fin (mu_spec 2 g)"
proof -
  assume "0 < g"
  then have "0 < g / pi" by simp
  then show ?thesis by (simp add: mu_2d_def np_sqrt_def mu_spec_def)
qed

lemma mu_3d_positive: "0 < g \<Longrightarrow> mu_3d g = Fin (mu_spec 3 g)"
proof -
  assume "0 < g"
  then have "0 < (15 * g) / (16 * sqrt 2 * pi)" by simp
  then show ?thesis by (simp add: mu_3d_def np_float_power_def mu_spec_def)
qed

lemma mu_spec_positive: "0 < g \<Longrightarrow> 0 < mu_spec d g"
  by (simp add: mu_spec_def)

lemma mu_negative: "g < 0 \<Longrightarrow> mu_1d g = NaN \<and> mu_2d g = NaN \<and> mu_3d g = NaN"
proof -
  assume g: "g < 0"
  then have "(3 * g) / (4 * sqrt 2) < 0" by (simp add: divide_neg_pos)
  moreover from g have "g / pi < 0" by (simp add: divide_neg_pos)
  moreover from g have "(15 * g) / (16 * sqrt 2 * pi) < 0" by (simp add: divide_neg_pos)
  ultimately show ?thesis
    by (simp add: mu_1d_def mu_2d_def mu_3d_def np_sqrt_def np_float_power_def)
qed

lemma tf_expr_positive: "0 < m \<Longrightarrow> tf_expr (Fin m) r2 g = Fin (thomas_fermi_spec m r2 g)"
  by (simp add: tf_expr_def thomas_fermi_spec_def)

text \<open>
  C8, as the code has it. In each dimension the Thomas-Fermi function returns \<open>None\<close> at
  \<open>g = 0\<close>. At \<open>g > 0\<close> it returns \<open>\<mu>(g) \<cdot> (1 - \<Sigma>coord\<^sup>2 / (2 \<mu>(g))) / g\<close> with the
  chemical potential of the dimension. At \<open>g < 0\<close> the same expression is evaluated, but
  the chemical potential is a fractional power or a root of a negative float, which is
  NaN, and so is the result: the formula is returned for positive \<open>g\<close> only.
\<close>

theorem thomas_fermi_value:
  "thomas_fermi_1d x g =
     (if g = 0 then None
      else if 0 < g then Some (Fin (thomas_fermi_spec (mu_spec 1 g) (x ^ 2) g))
      else Some NaN)
   \<and> thomas_fermi_2d x y g =
     (if g = 0 then None
      else if 0 < g then Some (Fin (thomas_fermi_spec (mu_spec 2 g) (x ^ 2 + y ^ 2) g))
      else Some NaN)
   \<and> thomas_fermi_2d_pos (x, y) g = thomas_fermi_2d x y g
   \<and> thomas_fermi_3d x y z g =
     (if g = 0 then None
      else if 0 < g then Some (Fin (thomas_fermi_spec (mu_spec 3 g) (x ^ 2 + y ^ 2 + z ^ 2) g))
      else Some NaN)"
proof (cases "0 < g")
  case True
  then show ?thesis
    by (simp add: thomas_fermi_1d_def thomas_fermi_2d_def thomas_fermi_2d_pos_def
        thomas_fermi_3d_def mu_1d_positive mu_2d_positive mu_3d_positive
        tf_expr_positive mu_spec_positive)
next
  case False
  show ?thesis
  proof (cases "g = 0")
    case True
    then show ?thesis
      by (simp add: thomas_fermi_1d_def thomas_fermi_2d_def thomas_fermi_2d_pos_def
          thomas_fermi_3d_def)
  next
    case nz: False
    with False have "g < 0" by simp
    then show ?thesis
      by (simp add: thomas_fermi_1d_def thomas_fermi_2d_def thomas_fermi_2d_pos_def
          thomas_fermi_3d_def mu_negative tf_expr_def)
  qed
qed

theorem thomas_fermi_value_witness:
  "thomas_fermi_1d 1 0 = None \<and> thomas_fermi_2d 1 2 0 = None \<and> thomas_fermi_3d 1 2 3 0 = None
   \<and> thomas_fermi_2d 1 2 pi = Some (Fin (- 3 / (2 * pi)))
   \<and> thomas_fermi_1d 1 (- 1) = Some NaN"
  using thomas_fermi_value [of 1 0 2 3] thomas_fermi_value [of 1 pi 2 3]
    thomas_fermi_value [of 1 "- 1" 2 3]
  by (simp add: thomas_fermi_spec_def mu_spec_def)

text \<open>
  C8, as the specification states it, fails at \<open>g = -1\<close>: in no dimension is the result
  the value of \<open>\<mu>(g) \<cdot> (1 - \<Sigma>coord\<^sup>2 / (2 \<mu>(g))) / g\<close>; it is NaN.
\<close>

theorem thomas_fermi_negative_counterexample:
  "thomas_fermi_1d 0 (- 1) \<noteq> Some (Fin (thomas_fermi_spec (mu_spec 1 (- 1)) (0 ^ 2) (- 1)))
   \<and> thomas_fermi_2d 0 0 (- 1)
       \<noteq> Some (Fin (thomas_fermi_spec (mu_spec 2 (- 1)) (0 ^ 2 + 0 ^ 2) (- 1)))
   \<and> thomas_fermi_3d 0 0 0 (- 1)
       \<noteq> Some (Fin (thomas_fermi_spec (mu_spec 3 (- 1)) (0 ^ 2 + 0 ^ 2 + 0 ^ 2) (- 1)))
   \<and> thomas_fermi_1d 0 (- 1) = Some NaN"
  using mu_negative [of "- 1"]
  by (simp add: thomas_fermi_1d_def thomas_fermi_2d_def thomas_fermi_3d_def tf_expr_def)

text \<open>
  C9 fails on the code in two dimensions: \<open>v_harmonic_2d\<close> takes \<open>alpha_y\<close> and calls
  \<open>v_2d\<close> with \<open>alpha_y = 1.0\<close>, and \<open>v_2d\<close> does not use it, so the result is
  \<open>\<onehalf> (x\<^sup>2 + y\<^sup>2)\<close> for every \<open>alpha_y\<close>. At \<open>(x, y) = (0, 1)\<close> and \<open>alpha_y = 2\<close> the
  code returns \<open>1/2\<close>, and \<open>\<onehalf> (x\<^sup>2 + (alpha_y \<cdot> y)\<^sup>2)\<close> is \<open>2\<close>. The three-dimensional
  function applies both scale factors.
\<close>

theorem v_harmonic_2d_ignores_alpha_y:
  "v_harmonic_2d (0, 1) 2 = 1 / 2
   \<and> 1 / 2 * (0 ^ 2 + (2 * 1) ^ 2) = (2::real)
   \<and> v_harmonic_2d (x, y) alpha_y = 1 / 2 * (x ^ 2 + y ^ 2)
   \<and> v_harmonic_3d x y z alpha_y alpha_z
       = 1 / 2 * (x ^ 2 + (alpha_y * y) ^ 2 + (alpha_z * z) ^ 2)"
  by (simp add: v_harmonic_2d_def v_2d_def v_harmonic_3d_def)

section \<open>Properties of Schroedinger.py\<close>

subsection \<open>Arrays and axes\<close>

lemma sequence_exn_map2:
  "sequence_exn (map2 (\<lambda>u v. Inr (f u v)) a b) = Inr (map2 f a b)"
proof (induction a arbitrary: b)
  case Nil
  show ?case by simp
next
  case (Cons u a)
  then show ?case by (cases b) simp_all
qed

lemma broadcast1_same_length:
  "length a = length b \<Longrightarrow> broadcast1 f a b = Inr (map2 f a b)"
  by (simp add: broadcast1_def broadcast_axis_def sequence_exn_map2)

lemma potential_half_step_1d:
  assumes "self_V_val s = Some (A1 vs)" "self_psi_val s = Some (A1 ps)" "length vs = length ps"
  shows "potential_half_step s = Inr (s\<lparr>self_psi_val := Some (A1 (half_step_1d s vs ps))\<rparr>)"
  using assms
  by (simp add: potential_half_step_def H_pot_def exn_bind_def raised_in_def attr_def
      broadcast1_same_length half_step_1d_def)

lemma probe_1d:
  "self_psi_val s = Some (A1 ps) \<Longrightarrow> probe s = Inl (IndexError, s)"
  by (simp add: probe_def raised_in_def attr_def)

lemma time_step_1d:
  assumes "self_V_val s = Some (A1 vs)" "self_psi_val s = Some (A1 ps)" "length vs = length ps"
  shows "time_step s = Inl (IndexError, s\<lparr>self_psi_val := Some (A1 (half_step_1d s vs ps))\<rparr>)"
  using assms
  by (simp add: time_step_def evolve_def stage_bind_def potential_half_step_1d probe_1d)

lemma linspace_nonneg: "0 \<le> R \<Longrightarrow> linspace a b R = Inr (linspace_samples a b (nat R))"
  by (simp add: linspace_def)

lemma length_linspace_samples: "length (linspace_samples a b n) = n"
  by (simp add: linspace_samples_def Let_def)

lemma length_fftfreq_integers: "0 \<le> n \<Longrightarrow> length (fftfreq_integers n) = nat n"
  by (simp add: fftfreq_integers_def Let_def)

lemma axis_kx_value:
  assumes "0 < R" "dk \<noteq> 0"
  shows "axis_kx R dk = Inr (map (\<lambda>i. real_of_int i * dk) (fftfreq_integers R))"
proof -
  have nz: "dk * real_of_int R \<noteq> 0" using assms by simp
  have val: "1 / (real_of_int R * (1 / (dk * real_of_int R))) = dk"
    using assms by (simp add: field_simps)
  have nz2: "real_of_int R * (1 / (dk * real_of_int R)) \<noteq> 0"
    using assms by simp
  show ?thesis
    using assms nz nz2 val
    by (simp add: axis_kx_def fftfreq_def py_truediv_def exn_bind_def)
qed

lemma map2_same: "map2 f (map g xs) (map h xs) = map (\<lambda>x. f (g x) (h x)) xs"
  by (induction xs) simp_all

lemma init_axes_value:
  assumes R: "0 < arg_resolution a" and L: "arg_L a \<noteq> 0"
    and mu: "arg_mu_sol a (arg_g a) = Inr m"
  shows "\<exists>s. init_axes a = Inr s
    \<and> self_x s = linspace_samples (- arg_L a) (arg_L a) (nat (arg_resolution a))
    \<and> self_dx s = 2 * arg_L a / real_of_int (arg_resolution a)
    \<and> self_kx s = map (\<lambda>i. real_of_int i * (pi / arg_L a)) (fftfreq_integers (arg_resolution a))
    \<and> self_k_squared s = map (\<lambda>k. real (axes_of_dim (arg_dim a)) * k ^ 2) (self_kx s)
    \<and> self_y s = (if arg_dim a \<ge> 2 then Some (self_x s) else None)
    \<and> self_z s = (if arg_dim a \<ge> 3 then Some (self_x s) else None)
    \<and> self_dy s = (if arg_dim a \<ge> 2 then Some (self_dx s) else None)
    \<and> self_dz s = (if arg_dim a \<ge> 3 then Some (self_dx s) else None)
    \<and> self_ky s = (if arg_dim a \<ge> 2 then Some (self_kx s) else None)
    \<and> self_kz s = (if arg_dim a \<ge> 3 then Some (self_kx s) else None)
    \<and> self_resolution s = arg_resolution a \<and> self_dim s = arg_dim a
    \<and> self_g s = arg_g a \<and> self_dt s = arg_dt a \<and> self_t s = 0
    \<and> self_mu s = Fin (arg_s a) \<and> self_E s = Fin (arg_E a) \<and> self_mu_sol s = m
    \<and> self_U s = (if arg_imag_time a then - 1 else - \<i>)
    \<and> self_psi_val s = None \<and> self_V_val s = None \<and> self_H_kin s = None"
proof -
  have dk: "pi / arg_L a \<noteq> 0" using L by simp
  have Rn: "real_of_int (arg_resolution a) \<noteq> 0" using R by simp
  have R0: "0 \<le> arg_resolution a" using R by simp
  show ?thesis
    using L Rn
    by (simp add: init_axes_def Let_def exn_bind_def mu linspace_nonneg [OF R0] py_truediv_def
        axis_kx_value [OF R dk] map2_same axes_of_dim_def)
qed

subsection \<open>The constructor\<close>

lemma exn_bind_Inr_iff: "exn_bind m f = Inr r \<longleftrightarrow> (\<exists>v. m = Inr v \<and> f v = Inr r)"
  by (cases m) (simp_all add: exn_bind_def)

lemma init_axes_Inr_D:
  assumes "init_axes a = Inr s"
  shows "0 < arg_resolution a \<and> arg_L a \<noteq> 0 \<and> (\<exists>m. arg_mu_sol a (arg_g a) = Inr m)"
  using assms
  by (auto simp add: init_axes_def Let_def exn_bind_Inr_iff linspace_def py_truediv_def
      split: if_splits)

lemma init_fields_keeps:
  assumes "init_fields a s = Inr s'"
  shows "self_x s' = self_x s \<and> self_dx s' = self_dx s \<and> self_kx s' = self_kx s
    \<and> self_k_squared s' = self_k_squared s
    \<and> self_y s' = self_y s \<and> self_z s' = self_z s
    \<and> self_dy s' = self_dy s \<and> self_dz s' = self_dz s
    \<and> self_ky s' = self_ky s \<and> self_kz s' = self_kz s
    \<and> self_resolution s' = self_resolution s \<and> self_dim s' = self_dim s
    \<and> self_g s' = self_g s \<and> self_dt s' = self_dt s \<and> self_t s' = self_t s
    \<and> self_mu s' = self_mu s \<and> self_E s' = self_E s \<and> self_mu_sol s' = self_mu_sol s
    \<and> self_U s' = self_U s"
  using assms
  by (auto simp add: init_fields_def Let_def exn_bind_Inr_iff case_prod_beta split: if_splits)

lemma init_Inr_D:
  assumes "init a = Inr eng"
  shows "0 < arg_resolution a \<and> arg_L a \<noteq> 0 \<and> arg_dim a \<le> 3
    \<and> self_x eng = linspace_samples (- arg_L a) (arg_L a) (nat (arg_resolution a))
    \<and> self_dx eng = 2 * arg_L a / real_of_int (arg_resolution a)
    \<and> self_kx eng = map (\<lambda>i. real_of_int i * (pi / arg_L a)) (fftfreq_integers (arg_resolution a))
    \<and> self_k_squared eng = map (\<lambda>k. real (axes_of_dim (arg_dim a)) * k ^ 2) (self_kx eng)
    \<and> self_y eng = (if arg_dim a \<ge> 2 then Some (self_x eng) else None)
    \<and> self_z eng = (if arg_dim a \<ge> 3 then Some (self_x eng) else None)
    \<and> self_dy eng = (if arg_dim a \<ge> 2 then Some (self_dx eng) else None)
    \<and> self_dz eng = (if arg_dim a \<ge> 3 then Some (self_dx eng) else None)
    \<and> self_ky eng = (if arg_dim a \<ge> 2 then Some (self_kx eng) else None)
    \<and> self_kz eng = (if arg_dim a \<ge> 3 then Some (self_kx eng) else None)
    \<and> self_resolution eng = arg_resolution a \<and> self_dim eng = arg_dim a
    \<and> self_g eng = arg_g a \<and> self_dt eng = arg_dt a \<and> self_t eng = 0
    \<and> self_mu eng = Fin (arg_s a) \<and> self_E eng = Fin (arg_E a)
    \<and> self_U eng = (if arg_imag_time a then - 1 else - \<i>)"
proof -
  from assms obtain s where s: "init_axes a = Inr s" and d: "arg_dim a \<le> 3"
    and f: "init_fields a s = Inr eng"
    by (auto simp add: init_def exn_bind_Inr_iff split: if_splits)
  from init_axes_Inr_D [OF s] obtain m where R: "0 < arg_resolution a" and L: "arg_L a \<noteq> 0"
    and m: "arg_mu_sol a (arg_g a) = Inr m" by blast
  from init_axes_value [OF R L m] s init_fields_keeps [OF f] R L d
  show ?thesis by simp
qed

lemma init_dim1:
  assumes "arg_dim a = 1" and R: "0 < arg_resolution a" and L: "arg_L a \<noteq> 0"
    and m: "arg_mu_sol a (arg_g a) = Inr m"
    and "arg_psi_0 a [A1 (linspace_samples (- arg_L a) (arg_L a) (nat (arg_resolution a)))] = Inr p"
    and "arg_V a [A1 (linspace_samples (- arg_L a) (arg_L a) (nat (arg_resolution a)))] = Inr v"
    and "arg_psi_sol a [A1 (linspace_samples (- arg_L a) (arg_L a) (nat (arg_resolution a)))]
           (arg_g a) = Inr q"
  shows "\<exists>eng. init a = Inr eng \<and> self_psi_val eng = Some p \<and> self_V_val eng = Some v
     \<and> self_psi_sol_val eng = Some q
     \<and> self_H_kin eng = Some (A1 (map (\<lambda>k2. exp (self_U eng * complex_of_real (0.5 * k2)
                                        * complex_of_real (self_dt eng))) (self_k_squared eng)))"
proof -
  from init_axes_value [OF R L m] obtain s where s: "init_axes a = Inr s"
    and x: "self_x s = linspace_samples (- arg_L a) (arg_L a) (nat (arg_resolution a))"
    and g: "self_g s = arg_g a" by blast
  show ?thesis
    using assms
    by (simp add: init_def s exn_bind_def init_fields_def Let_def x g)
qed

lemma length_half_step_1d: "length vs = length ps \<Longrightarrow> length (half_step_1d s vs ps) = length ps"
  by (simp add: half_step_1d_def)

lemma init_dim1_on_axis:
  assumes i: "init a = Inr eng" and d: "arg_dim a = 1"
    and p: "arg_psi_0 a = on_axis f" and v: "arg_V a = on_axis pot"
  shows "self_psi_val eng = Some (A1 (map f (self_x eng)))
       \<and> self_V_val eng = Some (A1 (map pot (self_x eng)))"
proof -
  from i obtain s where s: "init_axes a = Inr s" and fs: "init_fields a s = Inr eng"
    by (auto simp add: init_def exn_bind_Inr_iff split: if_splits)
  from init_fields_keeps [OF fs] have x: "self_x eng = self_x s" by simp
  from fs d p v show ?thesis
    by (auto simp add: init_fields_def Let_def exn_bind_Inr_iff on_axis_def x)
qed

lemma reachable_1d_invariant:
  assumes "reachable a s" and d: "arg_dim a = 1"
    and p: "arg_psi_0 a = on_axis f" and v: "arg_V a = on_axis pot"
  shows "\<exists>ps vs. self_psi_val s = Some (A1 ps) \<and> self_V_val s = Some (A1 vs)
     \<and> length vs = length ps
     \<and> self_t s = 0 \<and> self_mu s = Fin (arg_s a) \<and> self_E s = Fin (arg_E a)"
  using assms(1)
proof (induction rule: reachable.induct)
  case (constructed s)
  from init_dim1_on_axis [OF constructed d p v] init_Inr_D [OF constructed]
  show ?case by simp
next
  case (stepped s s')
  then obtain ps vs where "self_psi_val s = Some (A1 ps)" "self_V_val s = Some (A1 vs)"
    "length vs = length ps" by blast
  from time_step_1d [OF this(2) this(1) this(3)] stepped(2) show ?case by simp
next
  case (raised s e s')
  then obtain ps vs where h: "self_psi_val s = Some (A1 ps)" "self_V_val s = Some (A1 vs)"
    "length vs = length ps" and r: "self_t s = 0" "self_mu s = Fin (arg_s a)"
    "self_E s = Fin (arg_E a)" by blast
  from time_step_1d [OF h(2) h(1) h(3)] raised(2)
  have "s' = s\<lparr>self_psi_val := Some (A1 (half_step_1d s vs ps))\<rparr>" by simp
  with h r length_half_step_1d [OF h(3), of s] show ?case by simp
qed

text \<open>
  C3. An object made with \<open>dim = 1\<close> from initializers that work elementwise on the axis
  \<open>x\<close> has a field and a potential of one axis and one length, at its construction and
  after any number of calls of \<open>time_step\<close>. Every call of \<open>time_step\<close> on it does the
  first half step and then raises IndexError at \<open>psi_val[29:35, 29:34]\<close>, so \<open>t\<close> is
  still \<open>0\<close> and \<open>mu\<close> and \<open>E\<close> are still the values given to the constructor.
\<close>

theorem time_step_1d_index_error:
  assumes "reachable a s" and "arg_dim a = 1"
    and "arg_psi_0 a = on_axis f" and "arg_V a = on_axis pot"
  shows "\<exists>ps vs. self_psi_val s = Some (A1 ps) \<and> self_V_val s = Some (A1 vs)
     \<and> time_step s = Inl (IndexError, s\<lparr>self_psi_val := Some (A1 (half_step_1d s vs ps))\<rparr>)
     \<and> self_t s = 0 \<and> self_mu s = Fin (arg_s a) \<and> self_E s = Fin (arg_E a)"
proof -
  from reachable_1d_invariant [OF assms] obtain ps vs where
    h: "self_psi_val s = Some (A1 ps)" "self_V_val s = Some (A1 vs)" "length vs = length ps"
    and r: "self_t s = 0" "self_mu s = Fin (arg_s a)" "self_E s = Fin (arg_E a)" by blast
  from time_step_1d [OF h(2) h(1) h(3)] h r show ?thesis by simp
qed

theorem time_step_1d_index_error_witness:
  "\<exists>eng s' s''.
     init \<lparr>arg_resolution = 2, arg_timesteps = 1, arg_L = 1, arg_dt = 1, arg_g = 0,
           arg_imag_time = True, arg_s = 11 / 10, arg_E = 1, arg_dim = 1,
           arg_psi_0 = on_axis (\<lambda>x. 1), arg_V = on_axis v_harmonic_1d,
           arg_psi_sol = (\<lambda>args g. Inr None), arg_mu_sol = (\<lambda>g. Inr (mu_1d g)),
           arg_alpha_psi = 8 / 10, arg_alpha_V = 3 / 10\<rparr> = Inr eng
     \<and> time_step eng = Inl (IndexError, s')
     \<and> time_step s' = Inl (IndexError, s'')
     \<and> self_t s'' = 0 \<and> self_mu s'' = Fin (11 / 10) \<and> self_E s'' = Fin 1"
proof -
  let ?a = "\<lparr>arg_resolution = 2, arg_timesteps = 1, arg_L = 1, arg_dt = 1, arg_g = 0,
           arg_imag_time = True, arg_s = 11 / 10, arg_E = 1, arg_dim = 1,
           arg_psi_0 = on_axis (\<lambda>x. 1), arg_V = on_axis v_harmonic_1d,
           arg_psi_sol = (\<lambda>args g. Inr None), arg_mu_sol = (\<lambda>g. Inr (mu_1d g)),
           arg_alpha_psi = 8 / 10, arg_alpha_V = 3 / 10\<rparr>"
  have "\<exists>eng. init ?a = Inr eng \<and> self_psi_val eng = Some (A1 (map (\<lambda>x. 1) (linspace_samples (- 1) 1 2)))
      \<and> self_V_val eng = Some (A1 (map v_harmonic_1d (linspace_samples (- 1) 1 2)))
      \<and> self_psi_sol_val eng = Some None
      \<and> self_H_kin eng = Some (A1 (map (\<lambda>k2. exp (self_U eng * complex_of_real (0.5 * k2)
                                        * complex_of_real (self_dt eng))) (self_k_squared eng)))"
    by (rule init_dim1 [where m = "mu_1d 0"]) (simp_all add: on_axis_def)
  then obtain eng where eng: "init ?a = Inr eng" by blast
  then have r0: "reachable ?a eng" by (rule reachable.constructed)
  from time_step_1d_index_error [OF r0, of "\<lambda>x. 1" v_harmonic_1d]
  obtain s' where s': "time_step eng = Inl (IndexError, s')" by auto
  from r0 s' have r1: "reachable ?a s'" by (rule reachable.raised)
  from time_step_1d_index_error [OF r1, of "\<lambda>x. 1" v_harmonic_1d]
  obtain s'' where s'': "time_step s' = Inl (IndexError, s'')" by auto
  from r1 s'' have r2: "reachable ?a s''" by (rule reachable.raised)
  from time_step_1d_index_error [OF r2, of "\<lambda>x. 1" v_harmonic_1d]
  have "self_t s'' = 0 \<and> self_mu s'' = Fin (11 / 10) \<and> self_E s'' = Fin 1" by auto
  with eng s' s'' show ?thesis by blast
qed

lemma returns_iff: "returns m \<longleftrightarrow> (\<exists>v. m = Inr v)"
  by (cases m) (simp_all add: returns_def)

lemma not_exits_Inr: "\<not> exits (Inr v)"
  by (simp add: exits_def)

lemma not_exits_bind:
  "\<not> exits m \<Longrightarrow> (\<And>v. \<not> exits (f v)) \<Longrightarrow> \<not> exits (exn_bind m f)"
  by (cases m) (simp_all add: exn_bind_def exits_def)

lemma not_exits_linspace: "\<not> exits (linspace a b n)"
  by (simp add: linspace_def exits_def)

lemma not_exits_py_truediv: "\<not> exits (py_truediv a b)"
  by (simp add: py_truediv_def exits_def)

lemma not_exits_axis_kx: "\<not> exits (axis_kx n dk)"
  unfolding axis_kx_def fftfreq_def
  by (intro not_exits_bind not_exits_py_truediv) (simp add: exits_def)

lemma not_exits_attr: "\<not> exits (attr x)"
  by (cases x) (simp_all add: attr_def exits_def)

lemma not_exits_first_item: "\<not> exits (first_item x)"
  by (cases x) (simp_all add: first_item_def exits_def)

lemma not_exits_last_item: "\<not> exits (last_item x)"
  by (simp add: last_item_def exits_def)

lemma not_exits_if:
  "(c \<Longrightarrow> \<not> exits x) \<Longrightarrow> (\<not> c \<Longrightarrow> \<not> exits y) \<Longrightarrow> \<not> exits (if c then x else y)"
  by simp

lemma not_exits_init_axes:
  assumes "\<not> exits (arg_mu_sol a (arg_g a))"
  shows "\<not> exits (init_axes a)"
  unfolding init_axes_def Let_def
  by (intro not_exits_bind not_exits_if assms not_exits_linspace not_exits_py_truediv
      not_exits_axis_kx not_exits_Inr)

lemma not_exits_init_fields:
  assumes "\<And>args. \<not> exits (arg_psi_0 a args)" "\<And>args. \<not> exits (arg_V a args)"
    "\<And>args g. \<not> exits (arg_psi_sol a args g)"
  shows "\<not> exits (init_fields a s)"
  unfolding init_fields_def Let_def case_prod_beta
  by (intro not_exits_bind not_exits_if assms not_exits_attr not_exits_first_item
      not_exits_last_item not_exits_Inr)

text \<open>
  C10. With a dimension over \<open>3\<close> the constructor never returns an object: once the
  scalars and the axes are set (a positive resolution, \<open>L \<noteq> 0\<close>, \<open>mu_sol\<close> returns) it
  prints the message to the standard error stream and ends in \<open>sys.exit(1)\<close>, before any
  field is built. With a dimension of \<open>3\<close> or less the constructor does not end in
  \<open>sys.exit\<close>, unless one of the callables it is given does.
\<close>

theorem init_dim_over_3_exits:
  "(3 < arg_dim a \<longrightarrow>
      \<not> returns (init a)
      \<and> (0 < arg_resolution a \<and> arg_L a \<noteq> 0 \<and> returns (arg_mu_sol a (arg_g a))
           \<longrightarrow> init a = Inl (SystemExit exit_message 1)))
   \<and> (arg_dim a \<le> 3 \<and> \<not> exits (arg_mu_sol a (arg_g a))
        \<and> (\<forall>args. \<not> exits (arg_psi_0 a args)) \<and> (\<forall>args. \<not> exits (arg_V a args))
        \<and> (\<forall>args g. \<not> exits (arg_psi_sol a args g))
       \<longrightarrow> \<not> exits (init a))"
proof (intro conjI impI)
  assume d: "3 < arg_dim a"
  show "\<not> returns (init a)"
    using d by (cases "init_axes a") (simp_all add: init_def exn_bind_def returns_def)
next
  assume d: "3 < arg_dim a"
    and h: "0 < arg_resolution a \<and> arg_L a \<noteq> 0 \<and> returns (arg_mu_sol a (arg_g a))"
  then obtain m where m: "arg_mu_sol a (arg_g a) = Inr m" by (auto simp add: returns_iff)
  from h init_axes_value [OF _ _ m] obtain s where "init_axes a = Inr s" by blast
  with d show "init a = Inl (SystemExit exit_message 1)"
    by (simp add: init_def exn_bind_def)
next
  assume h: "arg_dim a \<le> 3 \<and> \<not> exits (arg_mu_sol a (arg_g a))
        \<and> (\<forall>args. \<not> exits (arg_psi_0 a args)) \<and> (\<forall>args. \<not> exits (arg_V a args))
        \<and> (\<forall>args g. \<not> exits (arg_psi_sol a args g))"
  then have ax: "\<not> exits (init_axes a)" by (simp add: not_exits_init_axes)
  from h have f: "\<And>s. \<not> exits (init_fields a s)" by (simp add: not_exits_init_fields)
  from h have "init a = exn_bind (init_axes a) (init_fields a)"
    by (simp add: init_def)
  with ax f show "\<not> exits (init a)" by (simp add: not_exits_bind)
qed

theorem init_dim_over_3_exits_witness:
  "init \<lparr>arg_resolution = 2, arg_timesteps = 1, arg_L = 1, arg_dt = 1, arg_g = 0,
         arg_imag_time = True, arg_s = 11 / 10, arg_E = 1, arg_dim = 4,
         arg_psi_0 = on_axis (\<lambda>x. 1), arg_V = on_axis v_harmonic_1d,
         arg_psi_sol = (\<lambda>args g. Inr None), arg_mu_sol = (\<lambda>g. Inr (mu_3d g)),
         arg_alpha_psi = 8 / 10, arg_alpha_V = 3 / 10\<rparr>
     = Inl (SystemExit ''Spatial dimension over 3. This is not implemented.'' 1)
   \<and> \<not> exits (init \<lparr>arg_resolution = 2, arg_timesteps = 1, arg_L = 1, arg_dt = 1, arg_g = 0,
         arg_imag_time = True, arg_s = 11 / 10, arg_E = 1, arg_dim = 1,
         arg_psi_0 = on_axis (\<lambda>x. 1), arg_V = on_axis v_harmonic_1d,
         arg_psi_sol = (\<lambda>args g. Inr None), arg_mu_sol = (\<lambda>g. Inr (mu_3d g)),
         arg_alpha_psi = 8 / 10, arg_alpha_V = 3 / 10\<rparr>)"
  using init_dim_over_3_exits [of "\<lparr>arg_resolution = 2, arg_timesteps = 1, arg_L = 1,
         arg_dt = 1, arg_g = 0,
         arg_imag_time = True, arg_s = 11 / 10, arg_E = 1, arg_dim = 4,
         arg_psi_0 = on_axis (\<lambda>x. 1), arg_V = on_axis v_harmonic_1d,
         arg_psi_sol = (\<lambda>args g. Inr None), arg_mu_sol = (\<lambda>g. Inr (mu_3d g)),
         arg_alpha_psi = 8 / 10, arg_alpha_V = 3 / 10\<rparr>"]
    init_dim_over_3_exits [of "\<lparr>arg_resolution = 2, arg_timesteps = 1, arg_L = 1,
         arg_dt = 1, arg_g = 0,
         arg_imag_time = True, arg_s = 11 / 10, arg_E = 1, arg_dim = 1,
         arg_psi_0 = on_axis (\<lambda>x. 1), arg_V = on_axis v_harmonic_1d,
         arg_psi_sol = (\<lambda>args g. Inr None), arg_mu_sol = (\<lambda>g. Inr (mu_3d g)),
         arg_alpha_psi = 8 / 10, arg_alpha_V = 3 / 10\<rparr>"]
  by (simp add: returns_def exits_def exit_message_def on_axis_def
      split: list.splits)







lemma init_fields_sets:
  assumes "init_fields a s = Inr s'" "1 \<le> arg_dim a" "arg_dim a \<le> 3"
  shows "self_psi_val s' \<noteq> None \<and> self_V_val s' \<noteq> None
    \<and> self_H_kin s' = Some (A1 (map (\<lambda>k2. exp (self_U s * complex_of_real (0.5 * k2)
                                        * complex_of_real (self_dt s))) (self_k_squared s)))"
  using assms
  by (auto simp add: init_fields_def Let_def exn_bind_Inr_iff case_prod_beta split: if_splits)







lemma linspace_samples_nth:
  assumes n: "2 \<le> n" and i: "i < n"
  shows "linspace_samples a b n ! i = a + real i * ((b - a) / real (n - 1))"
proof (cases "i < n - 1")
  case True
  with n show ?thesis
    by (simp add: linspace_samples_def Let_def nth_append)
next
  case False
  with i have e: "i = n - 1" by simp
  from n have "real (n - 1) \<noteq> 0" by simp
  then have "a + real (n - 1) * ((b - a) / real (n - 1)) = b" by simp
  with n e show ?thesis
    by (simp add: linspace_samples_def Let_def nth_append)
qed

lemma linspace_samples_spacing:
  assumes n: "2 \<le> n" and i: "Suc i < n"
  shows "linspace_samples a b n ! Suc i - linspace_samples a b n ! i = (b - a) / real (n - 1)"
proof -
  from i have i': "i < n" by simp
  have "a + real (Suc i) * st - (a + real i * st) = st" for st :: real
    by (simp add: algebra_simps)
  then show ?thesis
    unfolding linspace_samples_nth [OF n i] linspace_samples_nth [OF n i'] .
qed

lemma linspace_samples_last:
  "2 \<le> n \<Longrightarrow> last (linspace_samples a b n) = b"
  by (simp add: linspace_samples_def Let_def)

lemma linspace_samples_hd:
  "1 \<le> n \<Longrightarrow> hd (linspace_samples a b n) = a"
proof (cases "n = 1")
  case True
  then show ?thesis by (simp add: linspace_samples_def)
next
  case False
  assume "1 \<le> n"
  with False have n: "2 \<le> n" by simp
  then have "length (linspace_samples a b n) \<noteq> 0" by (simp add: length_linspace_samples)
  then have "linspace_samples a b n \<noteq> []" by (simp del: length_0_conv)
  then have "hd (linspace_samples a b n) = linspace_samples a b n ! 0"
    by (rule hd_conv_nth)
  also have "\<dots> = a" using linspace_samples_nth [OF n, of 0 a b] n by simp
  finally show ?thesis .
qed

text \<open>
  C5 fails on the code. \<open>np.linspace(-L, L, resolution)\<close> is called with its default
  \<open>endpoint=True\<close>: for a resolution \<open>R \<ge> 2\<close> the axis has \<open>R\<close> samples from \<open>-L\<close> to
  \<open>+L\<close>, both included, and consecutive samples differ by \<open>2L / (R - 1)\<close>. The stored
  spacing is \<open>dx = 2L / R\<close>, which is not the spacing of the samples.
\<close>

theorem position_axis_includes_endpoint:
  assumes "init a = Inr eng" and "2 \<le> arg_resolution a"
  shows "self_x eng = linspace_samples (- arg_L a) (arg_L a) (nat (arg_resolution a))
    \<and> length (self_x eng) = nat (arg_resolution a)
    \<and> hd (self_x eng) = - arg_L a
    \<and> last (self_x eng) = arg_L a
    \<and> (\<forall>i. Suc i < nat (arg_resolution a) \<longrightarrow>
          self_x eng ! Suc i - self_x eng ! i = 2 * arg_L a / (real_of_int (arg_resolution a) - 1))
    \<and> self_dx eng = 2 * arg_L a / real_of_int (arg_resolution a)
    \<and> self_dx eng \<noteq> 2 * arg_L a / (real_of_int (arg_resolution a) - 1)"
proof -
  let ?n = "nat (arg_resolution a)"
  from assms(2) have n: "2 \<le> ?n" and n1: "1 \<le> ?n" by simp_all
  from assms(2) have r: "real (?n - 1) = real_of_int (arg_resolution a) - 1"
    by (simp add: of_nat_diff)
  from init_Inr_D [OF assms(1)] have L: "arg_L a \<noteq> 0"
    and x: "self_x eng = linspace_samples (- arg_L a) (arg_L a) ?n"
    and dx: "self_dx eng = 2 * arg_L a / real_of_int (arg_resolution a)" by simp_all
  have sp: "\<forall>i. Suc i < ?n \<longrightarrow>
      self_x eng ! Suc i - self_x eng ! i = 2 * arg_L a / (real_of_int (arg_resolution a) - 1)"
    using linspace_samples_spacing [OF n, of _ "- arg_L a" "arg_L a"] r by (simp add: x)
  have ne: "self_dx eng \<noteq> 2 * arg_L a / (real_of_int (arg_resolution a) - 1)"
    using L assms(2) by (simp add: dx field_simps)
  from x dx sp ne linspace_samples_hd [OF n1, of "- arg_L a" "arg_L a"]
    linspace_samples_last [OF n, of "- arg_L a" "arg_L a"]
  show ?thesis by (simp add: length_linspace_samples)
qed

theorem position_axis_includes_endpoint_witness:
  "\<exists>eng. init \<lparr>arg_resolution = 4, arg_timesteps = 1, arg_L = 1, arg_dt = 1, arg_g = 0,
         arg_imag_time = True, arg_s = 11 / 10, arg_E = 1, arg_dim = 1,
         arg_psi_0 = on_axis (\<lambda>x. 1), arg_V = on_axis v_harmonic_1d,
         arg_psi_sol = (\<lambda>args g. Inr None), arg_mu_sol = (\<lambda>g. Inr (mu_1d g)),
         arg_alpha_psi = 8 / 10, arg_alpha_V = 3 / 10\<rparr> = Inr eng
     \<and> self_x eng = [- 1, - 1 / 3, 1 / 3, 1] \<and> last (self_x eng) = 1
     \<and> self_dx eng = 1 / 2 \<and> self_x eng ! 1 - self_x eng ! 0 = 2 / 3"
proof -
  let ?a = "\<lparr>arg_resolution = 4, arg_timesteps = 1, arg_L = 1, arg_dt = 1, arg_g = 0,
         arg_imag_time = True, arg_s = 11 / 10, arg_E = 1, arg_dim = 1,
         arg_psi_0 = on_axis (\<lambda>x. 1), arg_V = on_axis v_harmonic_1d,
         arg_psi_sol = (\<lambda>args g. Inr None), arg_mu_sol = (\<lambda>g. Inr (mu_1d g)),
         arg_alpha_psi = 8 / 10, arg_alpha_V = 3 / 10\<rparr>"
  have "\<exists>eng. init ?a = Inr eng
      \<and> self_psi_val eng = Some (A1 (map (\<lambda>x. 1) (linspace_samples (- 1) 1 4)))
      \<and> self_V_val eng = Some (A1 (map v_harmonic_1d (linspace_samples (- 1) 1 4)))
      \<and> self_psi_sol_val eng = Some None
      \<and> self_H_kin eng = Some (A1 (map (\<lambda>k2. exp (self_U eng * complex_of_real (0.5 * k2)
                                        * complex_of_real (self_dt eng))) (self_k_squared eng)))"
    by (rule init_dim1 [where m = "mu_1d 0"]) (simp_all add: on_axis_def)
  then obtain eng where eng: "init ?a = Inr eng" by blast
  have u: "[0..<3] = [0, 1, 2::nat]" by code_simp
  from position_axis_includes_endpoint [OF eng]
  have "self_x eng = [- 1, - 1 / 3, 1 / 3, 1] \<and> last (self_x eng) = 1
     \<and> self_dx eng = 1 / 2 \<and> self_x eng ! 1 - self_x eng ! 0 = 2 / 3"
    by (simp add: linspace_samples_def u)
  with eng show ?thesis by blast
qed

lemma init_dim2:
  assumes d: "arg_dim a = 2" and R: "0 < arg_resolution a" and L: "arg_L a \<noteq> 0"
    and m: "arg_mu_sol a (arg_g a) = Inr m"
    and x: "x = linspace_samples (- arg_L a) (arg_L a) (nat (arg_resolution a))"
    and pos: "pos = A3 (map (\<lambda>yi. map (\<lambda>xj. [xj, yi]) x) x)"
    and p: "arg_psi_0 a [pos] = Inr p"
    and v: "arg_V a [pos] = Inr v"
    and q: "arg_psi_sol a [pos] (arg_g a) = Inr q"
  shows "\<exists>eng. init a = Inr eng \<and> self_psi_val eng = Some p \<and> self_V_val eng = Some v
     \<and> self_pos eng = Some pos
     \<and> self_H_kin eng = Some (A1 (map (\<lambda>k2. exp (self_U eng * complex_of_real (0.5 * k2)
                                        * complex_of_real (self_dt eng))) (self_k_squared eng)))"
proof -
  from init_axes_value [OF R L m] d obtain s where s: "init_axes a = Inr s"
    and sx: "self_x s = x" and sy: "self_y s = Some x"
    and g: "self_g s = arg_g a" by (auto simp add: x)
  show ?thesis
    using d p v q
    by (simp add: init_def s exn_bind_def init_fields_def Let_def sx sy g attr_def
        get_meshgrid_def pos [symmetric])
qed

text \<open>
  C4 fails on the code. \<open>k_squared\<close> is \<open>kx ** 2.0\<close>, to which \<open>ky ** 2.0\<close> and
  \<open>kz ** 2.0\<close> are added in place: three arrays of one axis and \<open>R\<close> entries, and the three
  axes have the same samples. So in every dimension \<open>k_squared\<close> has one axis and \<open>R\<close>
  entries, the entry \<open>i\<close> is \<open>d \<cdot> kx[i]\<^sup>2\<close> for \<open>d\<close> axes, and \<open>H_kin\<close> has one axis as well.
  No array of the shape \<open>R\<^sup>d\<close> with the entries \<open>kx[i]\<^sup>2 + ky[j]\<^sup>2 + kz[k]\<^sup>2\<close> is built.
\<close>

theorem k_squared_has_one_axis:
  assumes "init a = Inr eng"
  shows "self_k_squared eng
           = map (\<lambda>k. real (axes_of_dim (arg_dim a)) * k ^ 2) (self_kx eng)
    \<and> length (self_k_squared eng) = nat (arg_resolution a)
    \<and> self_ky eng = (if 2 \<le> arg_dim a then Some (self_kx eng) else None)
    \<and> self_kz eng = (if 3 \<le> arg_dim a then Some (self_kx eng) else None)
    \<and> (1 \<le> arg_dim a \<longrightarrow> self_H_kin eng
          = Some (A1 (map (\<lambda>k2. exp (self_U eng * complex_of_real (0.5 * k2)
                                     * complex_of_real (self_dt eng))) (self_k_squared eng))))"
proof -
  from assms obtain s where s: "init_axes a = Inr s" and d: "arg_dim a \<le> 3"
    and f: "init_fields a s = Inr eng"
    by (auto simp add: init_def exn_bind_Inr_iff split: if_splits)
  have H: "1 \<le> arg_dim a \<longrightarrow> self_H_kin eng
          = Some (A1 (map (\<lambda>k2. exp (self_U eng * complex_of_real (0.5 * k2)
                                     * complex_of_real (self_dt eng))) (self_k_squared eng)))"
    using init_fields_sets [OF f _ d] init_fields_keeps [OF f] by simp
  from init_Inr_D [OF assms] H show ?thesis
    by (simp add: length_fftfreq_integers)
qed

theorem k_squared_has_one_axis_witness:
  "\<exists>eng. init \<lparr>arg_resolution = 2, arg_timesteps = 1, arg_L = 1, arg_dt = 1, arg_g = 0,
         arg_imag_time = True, arg_s = 11 / 10, arg_E = 1, arg_dim = 2,
         arg_psi_0 = on_pos (\<lambda>p. 1), arg_V = on_pos (\<lambda>p. v_harmonic_2d p 1),
         arg_psi_sol = (\<lambda>args g. Inr None), arg_mu_sol = (\<lambda>g. Inr (mu_2d g)),
         arg_alpha_psi = 8 / 10, arg_alpha_V = 3 / 10\<rparr> = Inr eng
     \<and> self_kx eng = [0, - pi] \<and> self_ky eng = Some [0, - pi]
     \<and> self_k_squared eng = [0, 2 * pi ^ 2]
     \<and> self_H_kin eng = Some (A1 [1, exp (- (complex_of_real pi ^ 2))])"
proof -
  let ?a = "\<lparr>arg_resolution = 2, arg_timesteps = 1, arg_L = 1, arg_dt = 1, arg_g = 0,
         arg_imag_time = True, arg_s = 11 / 10, arg_E = 1, arg_dim = 2,
         arg_psi_0 = on_pos (\<lambda>p. 1), arg_V = on_pos (\<lambda>p. v_harmonic_2d p 1),
         arg_psi_sol = (\<lambda>args g. Inr None), arg_mu_sol = (\<lambda>g. Inr (mu_2d g)),
         arg_alpha_psi = 8 / 10, arg_alpha_V = 3 / 10\<rparr>"
  have "\<exists>eng. init ?a = Inr eng
     \<and> self_psi_val eng = Some (A2 [[1, 1], [1, 1]])
     \<and> self_V_val eng = Some (A2 [[1, 1], [1, 1]])
     \<and> self_pos eng = Some (A3 [[[- 1, - 1], [1, - 1]], [[- 1, 1], [1, 1]]])
     \<and> self_H_kin eng = Some (A1 (map (\<lambda>k2. exp (self_U eng * complex_of_real (0.5 * k2)
                                        * complex_of_real (self_dt eng))) (self_k_squared eng)))"
    by (rule init_dim2 [where m = "mu_2d 0" and x = "[- 1, 1]" and q = None])
      (simp_all add: linspace_samples_def on_pos_def exn_bind_def v_harmonic_2d_def v_2d_def)
  then obtain eng where eng: "init ?a = Inr eng" by blast
  have u: "fftfreq_integers 2 = [0, - 1]"
    by (simp add: fftfreq_integers_def upto.simps)
  from init_Inr_D [OF eng] have U: "self_U eng = - 1" and dt: "self_dt eng = 1" by simp_all
  from k_squared_has_one_axis [OF eng]
  have "self_kx eng = [0, - pi] \<and> self_ky eng = Some [0, - pi]
     \<and> self_k_squared eng = [0, 2 * pi ^ 2]
     \<and> self_H_kin eng = Some (A1 [1, exp (- (complex_of_real pi ^ 2))])"
    using init_Inr_D [OF eng]
    by (simp add: u axes_of_dim_def U dt)
  with eng show ?thesis by blast
qed

lemma cmod_rescaled:
  assumes "0 < n"
  shows "cmod (c / complex_of_real (sqrt n)) powr 2 = cmod c powr 2 / n"
proof -
  from assms have s: "0 < sqrt n" by simp
  have "cmod (c / complex_of_real (sqrt n)) = cmod c / sqrt n"
    using s by (simp add: norm_divide)
  moreover have "(cmod c / sqrt n) ^ 2 = (cmod c) ^ 2 / n"
    using assms by (simp add: power_divide)
  moreover have "0 \<le> cmod c / sqrt n" using s by simp
  then have "(cmod c / sqrt n) powr 2 = (cmod c / sqrt n) ^ 2" by simp
  ultimately show ?thesis by simp
qed

lemma sum_list_divide_const:
  "sum_list (map (\<lambda>x. f x / n) xs) = sum_list (map f xs) / (n::real)"
  by (induction xs) (simp_all add: add_divide_distrib)

lemma np_sum_rescaled:
  assumes "0 < n"
  shows "np_sum (np_map (\<lambda>c. cmod c powr 2) (np_map (\<lambda>c. c / complex_of_real (sqrt n)) psi))
       = np_sum (np_map (\<lambda>c. cmod c powr 2) psi) / n"
proof -
  have e: "(\<lambda>c. cmod c powr 2) \<circ> (\<lambda>c. c / complex_of_real (sqrt n))
           = (\<lambda>c. cmod c powr 2 / n)"
    using cmod_rescaled [OF assms] by (simp only: comp_def)
  show ?thesis
  proof (cases psi)
    case (A1 a)
    then show ?thesis
      by (simp only: np_map.simps np_sum.simps map_map e sum_list_divide_const)
  next
    case (A2 a)
    then show ?thesis
      by (simp only: np_map.simps np_sum.simps map_map e comp_def sum_list_divide_const)
  next
    case (A3 a)
    then show ?thesis
      by (simp only: np_map.simps np_sum.simps map_map e comp_def sum_list_divide_const)
  qed
qed

lemma get_norm_volume:
  assumes "get_norm s p = Inr n"
  shows "\<exists>vol. \<forall>psi' q. get_norm (s\<lparr>self_psi_val := Some psi'\<rparr>) q
            = Inr (np_sum (np_map (\<lambda>c. cmod c powr q) psi') * vol)"
proof -
  from assms consider "self_dim s = 1" | "self_dim s = 2" | "self_dim s = 3"
    by (auto simp add: get_norm_def split: if_splits)
  then show ?thesis
  proof cases
    case 1
    then show ?thesis
      by (intro exI [of _ "self_dx s"]) (simp add: get_norm_def exn_bind_def attr_def)
  next
    case 2
    with assms obtain dy where "self_dy s = Some dy"
      by (auto simp add: get_norm_def exn_bind_Inr_iff attr_def split: option.splits)
    with 2 show ?thesis
      by (intro exI [of _ "self_dx s * dy"]) (simp add: get_norm_def exn_bind_def attr_def)
  next
    case 3
    with assms obtain dy dz where "self_dy s = Some dy" "self_dz s = Some dz"
      by (auto simp add: get_norm_def exn_bind_Inr_iff attr_def split: option.splits)
    with 3 show ?thesis
      by (intro exI [of _ "self_dx s * dy * dz"])
        (simp add: get_norm_def exn_bind_def attr_def)
  qed
qed

lemma get_norm_psi_val:
  "get_norm s p = Inr n \<Longrightarrow> \<exists>psi. self_psi_val s = Some psi"
  by (auto simp add: get_norm_def exn_bind_Inr_iff attr_def split: if_splits option.splits)

lemma get_norm_mu_E:
  "get_norm (s\<lparr>self_mu := m\<rparr>) p = get_norm s p"
  "get_norm (s\<lparr>self_E := e\<rparr>) p = get_norm s p"
  by (simp_all add: get_norm_def)

lemma renormalize_unit_norm:
  assumes g: "get_norm s 2 = Inr n" and n: "0 < n"
  shows "\<exists>psi s'. self_psi_val s = Some psi \<and> renormalize s = Inr s'
     \<and> self_psi_val s' = Some (np_map (\<lambda>c. c / complex_of_real (sqrt n)) psi)
     \<and> get_norm s' 2 = Inr 1"
proof -
  from get_norm_psi_val [OF g] obtain psi where psi: "self_psi_val s = Some psi" by blast
  from get_norm_volume [OF g] obtain vol where
    vol: "\<And>psi' q. get_norm (s\<lparr>self_psi_val := Some psi'\<rparr>) q
            = Inr (np_sum (np_map (\<lambda>c. cmod c powr q) psi') * vol)" by blast
  from psi have "s\<lparr>self_psi_val := Some psi\<rparr> = s" by simp
  with vol [of psi 2] g have n_eq: "n = np_sum (np_map (\<lambda>c. cmod c powr 2) psi) * vol"
    by simp
  let ?psi1 = "np_map (\<lambda>c. c / complex_of_real (sqrt n)) psi"
  let ?s1 = "s\<lparr>self_psi_val := Some ?psi1\<rparr>"
  have "np_sum (np_map (\<lambda>c. cmod c powr 2) ?psi1) * vol = n / n"
    unfolding np_sum_rescaled [OF n] using n_eq by simp
  with n vol [of ?psi1 2] have g1: "get_norm ?s1 2 = Inr 1" by simp
  from vol [of ?psi1 4] obtain p4 where g4: "get_norm ?s1 4 = Inr p4" by blast
  let ?s2 = "?s1\<lparr>self_mu := np_divide (- ln n) (2 * self_dt s)\<rparr>"
  let ?s3 = "?s2\<lparr>self_E := np_sub_scalar (self_mu ?s2) (0.5 * self_g s * p4)\<rparr>"
  have r: "renormalize s = Inr ?s3"
    using n by (simp add: renormalize_def raised_in_def g psi attr_def Let_def g4)
  have "get_norm ?s3 2 = Inr 1" using g1 by (simp only: get_norm_mu_E)
  moreover have "self_psi_val ?s3 = Some ?psi1" by simp
  ultimately show ?thesis using psi r by blast
qed



lemma map_sum_ndim1: "map_sum id A1 m = Inr c \<Longrightarrow> ndim c = 1"
  by (cases m) auto

lemma map_sum_ndim2: "map_sum id A2 m = Inr c \<Longrightarrow> ndim c = 2"
  by (cases m) auto

lemma map_sum_ndim3: "map_sum id A3 m = Inr c \<Longrightarrow> ndim c = 3"
  by (cases m) auto

lemma np_binop_ndim:
  "np_binop f a b = Inr c \<Longrightarrow> ndim c = max (ndim a) (ndim b)"
  by (cases a; cases b) (auto dest: map_sum_ndim1 map_sum_ndim2 map_sum_ndim3)

lemma transform_all_axes_ndim: "ndim (transform_all_axes f a) = ndim a"
  by (cases a) (simp_all add: transform_all_axes_def)

lemma field_has_two_axes_iff:
  "field_has_two_axes s \<longleftrightarrow> (\<exists>psi. self_psi_val s = Some psi \<and> 2 \<le> ndim psi)"
  by (simp add: field_has_two_axes_def split: option.splits)

lemma potential_half_step_axes:
  assumes "potential_half_step s = Inr s'" "field_has_two_axes s"
  shows "field_has_two_axes s'"
  using assms
  by (auto simp add: potential_half_step_def raised_in_def attr_def field_has_two_axes_iff
      split: sum.splits dest!: np_binop_ndim)

lemma kinetic_step_axes:
  assumes "kinetic_step s = Inr s'" "field_has_two_axes s"
  shows "field_has_two_axes s'"
  using assms
  by (auto simp add: kinetic_step_def raised_in_def attr_def field_has_two_axes_iff
      split: sum.splits option.splits dest!: np_binop_ndim)

lemma to_momentum_space_axes:
  assumes "to_momentum_space s = Inr s'" "field_has_two_axes s"
  shows "field_has_two_axes s'"
  using assms
  by (auto simp add: to_momentum_space_def raised_in_def attr_def field_has_two_axes_iff
      fftn_def transform_all_axes_ndim split: sum.splits if_splits)

lemma to_position_space_axes:
  assumes "to_position_space s = Inr s'" "field_has_two_axes s"
  shows "field_has_two_axes s'"
  using assms
  by (auto simp add: to_position_space_def raised_in_def attr_def field_has_two_axes_iff
      ifftn_def transform_all_axes_ndim split: sum.splits if_splits)

lemma probe_two_axes:
  assumes "field_has_two_axes s"
  shows "probe s = Inr s"
proof -
  from assms obtain psi where psi: "self_psi_val s = Some psi" and n: "2 \<le> ndim psi"
    by (auto simp add: field_has_two_axes_iff)
  from n show ?thesis
    by (cases psi) (simp_all add: probe_def raised_in_def attr_def psi)
qed

lemma time_step_two_axes:
  assumes P: "field_has_two_axes s"
  shows "time_step s = time_step_spec s"
proof (cases "potential_half_step s")
  case (Inl e)
  then show ?thesis
    by (simp add: time_step_def time_step_spec_def evolve_def stage_bind_def)
next
  case s1: (Inr s1)
  note P1 = potential_half_step_axes [OF s1 P]
  note pr1 = probe_two_axes [OF P1]
  show ?thesis
  proof (cases "to_momentum_space s1")
    case (Inl e)
    with s1 pr1 show ?thesis
      by (simp add: time_step_def time_step_spec_def evolve_def stage_bind_def)
  next
    case s2: (Inr s2)
    note P2 = to_momentum_space_axes [OF s2 P1]
    show ?thesis
    proof (cases "kinetic_step s2")
      case (Inl e)
      with s1 pr1 s2 show ?thesis
        by (simp add: time_step_def time_step_spec_def evolve_def stage_bind_def)
    next
      case s3: (Inr s3)
      note P3 = kinetic_step_axes [OF s3 P2]
      show ?thesis
      proof (cases "to_position_space s3")
        case (Inl e)
        with s1 pr1 s2 s3 show ?thesis
          by (simp add: time_step_def time_step_spec_def evolve_def stage_bind_def)
      next
        case s4: (Inr s4)
        note P4 = to_position_space_axes [OF s4 P3]
        note pr4 = probe_two_axes [OF P4]
        from s1 pr1 s2 s3 s4 pr4 show ?thesis
          by (simp add: time_step_def time_step_spec_def evolve_def stage_bind_def
              split: sum.splits)
      qed
    qed
  qed
qed

text \<open>
  C2 fails on the code for a field of one axis. \<open>time_step\<close> has two statements that the
  sequence of the specification does not have, \<open>a = np.abs(self.psi_val[29:35, 29:34]) ** 2.0\<close>
  after the first half step and after the inverse transform. On a field of two or three
  axes they change nothing, and \<open>time_step\<close> is the sequence of the specification. On a
  field and a potential of one axis, as an object made with \<open>dim = 1\<close> has them, the first
  of them raises IndexError: the field has been multiplied by \<open>H_pot\<close> once, and nothing
  else of the sequence is done.
\<close>

theorem time_step_sequence:
  "(field_has_two_axes s \<longrightarrow> time_step s = time_step_spec s)
   \<and> (self_V_val s = Some (A1 vs) \<and> self_psi_val s = Some (A1 ps) \<and> length vs = length ps
        \<longrightarrow> time_step s
              = Inl (IndexError, s\<lparr>self_psi_val := Some (A1 (half_step_1d s vs ps))\<rparr>))"
  using time_step_two_axes [of s] time_step_1d [of s vs ps] by blast

theorem time_step_sequence_witness:
  "\<exists>e1 e2 s1 s2.
     init \<lparr>arg_resolution = 1, arg_timesteps = 1, arg_L = 1, arg_dt = 1, arg_g = 0,
         arg_imag_time = True, arg_s = 11 / 10, arg_E = 1, arg_dim = 1,
         arg_psi_0 = on_axis (\<lambda>x. 1), arg_V = on_axis v_harmonic_1d,
         arg_psi_sol = (\<lambda>args g. Inr None), arg_mu_sol = (\<lambda>g. Inr (mu_1d g)),
         arg_alpha_psi = 8 / 10, arg_alpha_V = 3 / 10\<rparr> = Inr e1
     \<and> time_step e1 = Inl (IndexError, s1) \<and> self_t s1 = 0
     \<and> time_step_spec e1 = Inr s2 \<and> get_norm s2 2 = Inr 1
     \<and> init \<lparr>arg_resolution = 1, arg_timesteps = 1, arg_L = 1, arg_dt = 1, arg_g = 0,
         arg_imag_time = True, arg_s = 11 / 10, arg_E = 1, arg_dim = 2,
         arg_psi_0 = on_pos (\<lambda>p. 1), arg_V = on_pos (\<lambda>p. v_harmonic_2d p 1),
         arg_psi_sol = (\<lambda>args g. Inr None), arg_mu_sol = (\<lambda>g. Inr (mu_2d g)),
         arg_alpha_psi = 8 / 10, arg_alpha_V = 3 / 10\<rparr> = Inr e2
     \<and> time_step e2 = time_step_spec e2"
proof -
  let ?a1 = "\<lparr>arg_resolution = 1, arg_timesteps = 1, arg_L = 1, arg_dt = 1, arg_g = 0,
         arg_imag_time = True, arg_s = 11 / 10, arg_E = 1, arg_dim = 1,
         arg_psi_0 = on_axis (\<lambda>x. 1), arg_V = on_axis v_harmonic_1d,
         arg_psi_sol = (\<lambda>args g. Inr None), arg_mu_sol = (\<lambda>g. Inr (mu_1d g)),
         arg_alpha_psi = 8 / 10, arg_alpha_V = 3 / 10\<rparr>"
  let ?a2 = "\<lparr>arg_resolution = 1, arg_timesteps = 1, arg_L = 1, arg_dt = 1, arg_g = 0,
         arg_imag_time = True, arg_s = 11 / 10, arg_E = 1, arg_dim = 2,
         arg_psi_0 = on_pos (\<lambda>p. 1), arg_V = on_pos (\<lambda>p. v_harmonic_2d p 1),
         arg_psi_sol = (\<lambda>args g. Inr None), arg_mu_sol = (\<lambda>g. Inr (mu_2d g)),
         arg_alpha_psi = 8 / 10, arg_alpha_V = 3 / 10\<rparr>"
  have "\<exists>eng. init ?a1 = Inr eng
      \<and> self_psi_val eng = Some (A1 [1])
      \<and> self_V_val eng = Some (A1 [1 / 2])
      \<and> self_psi_sol_val eng = Some None
      \<and> self_H_kin eng = Some (A1 (map (\<lambda>k2. exp (self_U eng * complex_of_real (0.5 * k2)
                                        * complex_of_real (self_dt eng))) (self_k_squared eng)))"
    by (rule init_dim1 [where m = "mu_1d 0"])
      (simp_all add: on_axis_def linspace_samples_def v_harmonic_1d_def)
  then obtain e1 where e1: "init ?a1 = Inr e1"
    and psi: "self_psi_val e1 = Some (A1 [1])"
    and V: "self_V_val e1 = Some (A1 [1 / 2])"
    and H: "self_H_kin e1 = Some (A1 (map (\<lambda>k2. exp (self_U e1 * complex_of_real (0.5 * k2)
                                        * complex_of_real (self_dt e1))) (self_k_squared e1)))"
    by blast
  have u: "fftfreq_integers 1 = [0]"
    by (simp add: fftfreq_integers_def upto.simps)
  from init_Inr_D [OF e1] have f: "self_U e1 = - 1" "self_dt e1 = 1" "self_g e1 = 0"
    "self_dx e1 = 2" "self_dim e1 = 1" "self_k_squared e1 = [0]" "self_t e1 = 0"
    by (simp_all add: u axes_of_dim_def)
  from time_step_sequence [of e1 "[1 / 2]" "[1]"] psi V
  have t1: "time_step e1
      = Inl (IndexError, e1\<lparr>self_psi_val := Some (A1 (half_step_1d e1 [1 / 2] [1]))\<rparr>)"
    by simp
  let ?s = "e1\<lparr>self_psi_val := Some (A1 [exp (- (1 / 4)) * exp (- (1 / 4))]), self_t := 1\<rparr>"
  have sp: "time_step_spec e1 = renormalize ?s"
    by (simp add: time_step_spec_def stage_bind_def potential_half_step_def H_pot_def
        raised_in_def exn_bind_def attr_def psi V H f broadcast1_def broadcast_axis_def
        to_momentum_space_def fftn_def transform_all_axes_def
        fft_def ifft_def dft_def kinetic_step_def to_position_space_def
        ifftn_def advance_time_def Let_def)
  have "\<exists>n. get_norm ?s 2 = Inr n \<and> 0 < n"
    by (simp add: get_norm_def exn_bind_def attr_def f norm_mult)
  then obtain n where n: "get_norm ?s 2 = Inr n" "0 < n" by blast
  from renormalize_unit_norm [OF n] sp obtain s2 where
    s2: "time_step_spec e1 = Inr s2" "get_norm s2 2 = Inr 1" by auto
  have "\<exists>eng. init ?a2 = Inr eng
     \<and> self_psi_val eng = Some (A2 [[1]])
     \<and> self_V_val eng = Some (A2 [[1]])
     \<and> self_pos eng = Some (A3 [[[- 1, - 1]]])
     \<and> self_H_kin eng = Some (A1 (map (\<lambda>k2. exp (self_U eng * complex_of_real (0.5 * k2)
                                        * complex_of_real (self_dt eng))) (self_k_squared eng)))"
    by (rule init_dim2 [where m = "mu_2d 0" and x = "[- 1]" and q = None])
      (simp_all add: linspace_samples_def on_pos_def exn_bind_def v_harmonic_2d_def v_2d_def)
  then obtain e2 where e2: "init ?a2 = Inr e2" and psi2: "self_psi_val e2 = Some (A2 [[1]])"
    by blast
  from time_step_sequence [of e2] psi2 have t2: "time_step e2 = time_step_spec e2"
    by (simp add: field_has_two_axes_def)
  from e1 t1 f s2 e2 t2 show ?thesis by simp
qed

end
